theory Spec2Isabelle
  imports Main "HOL-Library.Sublist" "HOL-Library.Multiset"
    "HOL-Library.List_Lexorder" "HOL-Library.Char_ord"
begin

section \<open>Data model\<close>

text \<open>
  Timestamps. The store keeps every timestamp as the string it was given: the client's
  \<open>startTime\<close> and \<open>endTime\<close> as they came in the request, and
  \<^verbatim>\<open>new Date().toISOString()\<close> for \<open>createdAt\<close> and \<open>updatedAt\<close>. The
  store's \<^verbatim>\<open>$lt/$gt/$gte/$lte\<close> filters compare such strings as strings, byte by
  byte, a proper prefix being smaller: the lexicographic order of \<open>char list\<close>. Code
  that needs an instant parses the string with \<^verbatim>\<open>new Date(s).getTime()\<close>. An
  instant is its epoch milliseconds, an \<open>int\<close> (JavaScript numbers are exact on integers
  up to \<open>2^53\<close>, beyond every time value a \<^verbatim>\<open>Date\<close> admits).

  The two conversions belong to the JavaScript engine, not to the repository, and the
  model takes them as a parameter: \<open>dateParse\<close> is \<^verbatim>\<open>new Date(s).getTime()\<close>
  with \<open>None\<close> for Invalid Date (NaN), \<open>toISOString\<close> is the method of that name
  on a valid date.

  A query parameter that is only ever used parsed (\<^verbatim>\<open>date\<close> and
  \<^verbatim>\<open>duration\<close> of the slot query) is modelled by the outcome of parsing it:
  \<open>Absent\<close> when the parameter is missing or falsy, \<open>Invalid\<close> when parsing yields
  Invalid Date or NaN, \<open>Parsed v\<close> otherwise.
\<close>

record DateApi =
  dateParse :: "string \<Rightarrow> int option"
  toISOString :: "int \<Rightarrow> string"

datatype 'a parsed = Absent | Invalid | Parsed 'a

datatype status = pending | confirmed | completed | cancelled

text \<open>A document id is a driver-generated ObjectId (24 hex digits) or a plain string.\<close>

datatype doc_id = ObjectId string | RawId string

text \<open>
  A slot of the response carries the instants of its two ends (the handler renders them
  with \<open>toISOString\<close>); an appointment carries the stored strings.
\<close>

record 't Interval =
  startTime :: 't
  endTime :: 't

record TimeSlot = "int Interval" +
  isAvailable :: bool

record Appointment = "string Interval" +
  doc_id :: doc_id
  patientName :: string
  patientEmail :: string
  patientPhone :: string
  serviceId :: string
  providerId :: string
  status :: status
  createdAt :: string
  updatedAt :: string
  rescheduleReason :: "string option"
  reminderSent :: bool
  reminderSentAt :: "string option"

text \<open>
  Business hours: \<open>bhStartTime\<close> and \<open>bhEndTime\<close> are the hour and minute that
  \<^verbatim>\<open>startTime.split(":").map(Number)\<close> reads from the \<^verbatim>\<open>HH:mm\<close> strings.
  A blocked date (a \<^verbatim>\<open>YYYY-MM-DD\<close> string, compared by exact match with the UTC
  date of the requested instant) is represented by its day number since 1970-01-01.
\<close>

record BusinessHours =
  dayOfWeek :: int
  bhStartTime :: "int \<times> int"
  bhEndTime :: "int \<times> int"
  isOpen :: bool

record ProviderAvailability =
  av_providerId :: string
  businessHours :: "BusinessHours list"
  blockedDates :: "int list"

record Db =
  appointments :: "Appointment list"
  availability :: "ProviderAvailability list"

section \<open>Interval overlap\<close>

text \<open>
  slots.ts line 78, on instants: \<^verbatim>\<open>slotStart < aptEnd && slotEndTime > aptStart\<close>;
  appointments.ts lines 48-49 and admin.ts lines 222-223, on strings:
  \<^verbatim>\<open>startTime: { $lt: newEnd }, endTime: { $gt: newStart }\<close>.
\<close>

definition overlaps :: "('t::ord, 'a) Interval_scheme \<Rightarrow> ('t, 'b) Interval_scheme \<Rightarrow> bool" where
  "overlaps A B = (startTime A < endTime B \<and> endTime A > startTime B)"

definition activeStatus :: "status \<Rightarrow> bool" where
  "activeStatus s = (s = confirmed \<or> s = pending)"

section \<open>Availability resolver (src/server/routes/slots.ts)\<close>

text \<open>
  Local time is UTC plus a fixed offset \<open>tz\<close> (milliseconds; no daylight-saving
  change inside the day), so \<^verbatim>\<open>setHours(h, m, 0, 0)\<close> is local midnight plus
  \<open>h\<close> hours and \<open>m\<close> minutes.
\<close>

definition localMidnight :: "int \<Rightarrow> int \<Rightarrow> int" where
  "localMidnight tz t = t - (t + tz) mod 86400000"

definition setHours :: "int \<Rightarrow> int \<Rightarrow> int \<Rightarrow> int \<Rightarrow> int \<Rightarrow> int \<Rightarrow> int" where
  "setHours tz t h m s ms = localMidnight tz t + h * 3600000 + m * 60000 + s * 1000 + ms"

definition getDay :: "int \<Rightarrow> int \<Rightarrow> int" where
  "getDay tz t = ((t + tz) div 86400000 + 4) mod 7"

definition isoDateString :: "int \<Rightarrow> int" where
  "isoDateString t = t div 86400000"

datatype slots_response = SlotsJson "TimeSlot list" | SlotsError nat string

text \<open>Lines 35-42: the appointments fetched for the conflict test.\<close>

definition bookedAppointments ::
  "DateApi \<Rightarrow> 'a Db_scheme \<Rightarrow> string \<Rightarrow> int \<Rightarrow> int \<Rightarrow> Appointment list" where
  "bookedAppointments js db pid startOfDay endOfDay =
     filter (\<lambda>apt. providerId apt = pid
                  \<and> startTime apt \<ge> toISOString js startOfDay
                  \<and> startTime apt \<le> toISOString js endOfDay
                  \<and> activeStatus (status apt))
            (appointments db)"

text \<open>
  Lines 73-79: the test of one slot against one fetched appointment, whose strings are
  parsed here. A comparison with NaN is false.
\<close>

definition slotConflictsWith :: "DateApi \<Rightarrow> TimeSlot \<Rightarrow> Appointment \<Rightarrow> bool" where
  "slotConflictsWith js slot apt =
     (case (dateParse js (startTime apt), dateParse js (endTime apt)) of
        (Some aptStart, Some aptEnd) \<Rightarrow> overlaps slot \<lparr>startTime = aptStart, endTime = aptEnd\<rparr>
      | _ \<Rightarrow> False)"

text \<open>
  Lines 68-90: the \<^verbatim>\<open>while\<close> loop. It need not terminate, so it is a partial
  function into \<open>option\<close>: \<open>None\<close> means the loop never exits.
\<close>

partial_function (option) slotWalk ::
  "DateApi \<Rightarrow> Appointment list \<Rightarrow> int \<Rightarrow> int \<Rightarrow> int \<Rightarrow> TimeSlot list
   \<Rightarrow> TimeSlot list option" where
  "slotWalk js booked durationMinutes dayEnd currentSlot allSlots =
     (if currentSlot + durationMinutes * 60000 \<le> dayEnd then
        let slotEnd = currentSlot + durationMinutes * 60000;
            slot = \<lparr>startTime = currentSlot, endTime = slotEnd, isAvailable = True\<rparr>;
            isConflict = list_ex (\<lambda>apt. slotConflictsWith js slot apt) booked
        in slotWalk js booked durationMinutes dayEnd
             (currentSlot + durationMinutes * 60000)
             (if \<not> isConflict then allSlots @ [slot] else allSlots)
      else Some allSlots)"

declare slotWalk.simps [code]

text \<open>Lines 60-66: the day's open window, from the business hours applied to the date.\<close>

definition startDateTime :: "int \<Rightarrow> int \<Rightarrow> BusinessHours \<Rightarrow> int" where
  "startDateTime tz selectedDate bh =
     setHours tz selectedDate (fst (bhStartTime bh)) (snd (bhStartTime bh)) 0 0"

definition endDateTime :: "int \<Rightarrow> int \<Rightarrow> BusinessHours \<Rightarrow> int" where
  "endDateTime tz selectedDate bh =
     setHours tz selectedDate (fst (bhEndTime bh)) (snd (bhEndTime bh)) 0 0"

record SlotsQuery =
  q_providerId :: string
  q_date :: "int parsed"
  q_duration :: "int parsed"

text \<open>
  \<open>shuffle\<close> stands for \<^verbatim>\<open>allSlots.sort(() => Math.random() - 0.5)\<close>, which
  rearranges the array in an order the model does not fix. A duration that parses to
  NaN makes the loop guard false at once; an Invalid Date makes
  \<^verbatim>\<open>startOfDay.toISOString()\<close> throw, which the handler answers with 500.
\<close>

definition getAvailableSlots ::
  "DateApi \<Rightarrow> (TimeSlot list \<Rightarrow> TimeSlot list) \<Rightarrow> int \<Rightarrow> 'a Db_scheme \<Rightarrow> SlotsQuery
   \<Rightarrow> slots_response option" where
  "getAvailableSlots js shuffle tz db q =
     (if q_providerId q = [] \<or> q_date q = Absent \<or> q_duration q = Absent then
        Some (SlotsError 400 ''Missing required parameters: providerId, date, duration'')
      else
        case find (\<lambda>a. av_providerId a = q_providerId q) (availability db) of
          None \<Rightarrow> Some (SlotsError 404 ''Provider availability not found'')
        | Some avail \<Rightarrow>
           (case q_date q of
              Parsed selectedDate \<Rightarrow>
                let startOfDay = setHours tz selectedDate 0 0 0 0;
                    endOfDay = setHours tz selectedDate 23 59 59 999;
                    booked = bookedAppointments js db (q_providerId q) startOfDay endOfDay
                in (case find (\<lambda>bh. dayOfWeek bh = getDay tz selectedDate) (businessHours avail) of
                      None \<Rightarrow> Some (SlotsJson [])
                    | Some bh \<Rightarrow>
                        if \<not> isOpen bh then Some (SlotsJson [])
                        else if isoDateString selectedDate \<in> set (blockedDates avail) then
                          Some (SlotsJson [])
                        else
                          (case q_duration q of
                             Parsed durationMinutes \<Rightarrow>
                               (case slotWalk js booked durationMinutes (endDateTime tz selectedDate bh)
                                       (startDateTime tz selectedDate bh) [] of
                                  None \<Rightarrow> None
                                | Some allSlots \<Rightarrow> Some (SlotsJson (take 8 (shuffle allSlots))))
                           | _ \<Rightarrow> Some (SlotsJson (take 8 (shuffle [])))))
            | _ \<Rightarrow> Some (SlotsError 500 ''Failed to fetch available slots'')))"

text \<open>
  The specification's description of the walk, for comparison with \<open>slotWalk\<close>:
  a candidate \<open>[cursor, cursor + duration)\<close> for every step of \<open>durationMinutes\<close>
  from \<open>dayStart\<close> with \<open>cursor + duration \<le> dayEnd\<close>. \<open>accepted\<close> is a
  candidate that the handler's test lets through against a list of fetched
  appointments; \<open>nonConflicting\<close> is a candidate that intersects no confirmed or
  pending appointment of the provider at all, which is what the specification counts.
\<close>

definition candidateSlots :: "int \<Rightarrow> int \<Rightarrow> int \<Rightarrow> TimeSlot list" where
  "candidateSlots dayStart dayEnd durationMinutes =
     map (\<lambda>k. \<lparr>startTime = dayStart + int k * (durationMinutes * 60000),
               endTime = dayStart + int k * (durationMinutes * 60000) + durationMinutes * 60000,
               isAvailable = True\<rparr>)
         [0 ..< nat ((dayEnd - dayStart) div (durationMinutes * 60000))]"

definition accepted :: "DateApi \<Rightarrow> Appointment list \<Rightarrow> TimeSlot \<Rightarrow> bool" where
  "accepted js booked slot = (\<not> list_ex (\<lambda>apt. slotConflictsWith js slot apt) booked)"

definition nonConflicting :: "DateApi \<Rightarrow> 'a Db_scheme \<Rightarrow> string \<Rightarrow> TimeSlot \<Rightarrow> bool" where
  "nonConflicting js db pid slot =
     (\<not> list_ex (\<lambda>apt. providerId apt = pid \<and> activeStatus (status apt)
                         \<and> slotConflictsWith js slot apt)
               (appointments db))"

section \<open>Error handling (errorHandler.ts, in src/server/index.ts from line 152)\<close>

datatype ErrorCode =
    INVALID_INPUT | MISSING_REQUIRED_FIELD | INVALID_EMAIL | INVALID_PHONE
  | UNAUTHORIZED | FORBIDDEN | INVALID_CREDENTIALS | TOKEN_EXPIRED
  | NOT_FOUND | CONFLICT | ALREADY_EXISTS
  | SLOT_UNAVAILABLE | DOUBLE_BOOKING | INVALID_STATUS_TRANSITION | PROVIDER_UNAVAILABLE
  | INTERNAL_SERVER_ERROR | DATABASE_ERROR | EXTERNAL_SERVICE_ERROR

record AppError =
  code :: ErrorCode
  message :: string
  statusCode :: nat

text \<open>
  Strings are byte strings; \<^verbatim>\<open>\s\<close> and \<^verbatim>\<open>trim()\<close> are modelled on the
  ASCII white-space characters.
\<close>

definition isSpace :: "char \<Rightarrow> bool" where
  "isSpace c = (c \<in> set [CHR '' '', CHR 0x09, CHR 0x0A, CHR 0x0B, CHR 0x0C, CHR 0x0D])"

definition isDigit :: "char \<Rightarrow> bool" where
  "isDigit c = (c \<in> set ''0123456789'')"

definition trim :: "string \<Rightarrow> string" where
  "trim s = rev (dropWhile isSpace (rev (dropWhile isSpace s)))"

text \<open>\<^verbatim>\<open>/^[^\s@]+@[^\s@]+\.[^\s@]+$/\<close>\<close>

definition validateEmail :: "string \<Rightarrow> bool" where
  "validateEmail email =
     (let ok = (\<lambda>c. \<not> isSpace c \<and> c \<noteq> CHR ''@'');
          localPart = takeWhile (\<lambda>c. c \<noteq> CHR ''@'') email;
          rest = dropWhile (\<lambda>c. c \<noteq> CHR ''@'') email
      in localPart \<noteq> [] \<and> list_all ok localPart \<and> rest \<noteq> []
         \<and> list_all ok (tl rest) \<and> CHR ''.'' \<in> set (butlast (tl (tl rest))))"

text \<open>\<^verbatim>\<open>/^[\d\s\-\+\(\)]+$/\<close> and at least ten digits.\<close>

definition validatePhone :: "string \<Rightarrow> bool" where
  "validatePhone phone =
     (phone \<noteq> [] \<and> list_all (\<lambda>c. isDigit c \<or> isSpace c \<or> c \<in> set ''-+()'') phone
      \<and> length (filter isDigit phone) \<ge> 10)"

text \<open>
  The validators throw an \<open>AppError\<close> or return; the model returns the error thrown,
  if any. \<open>isEmptyValue\<close> is the test \<^verbatim>\<open>!value || value.trim() === ""\<close>.
\<close>

definition isEmptyValue :: "string \<Rightarrow> bool" where
  "isEmptyValue v = (v = [] \<or> trim v = [])"

definition validateNotEmpty :: "bool \<Rightarrow> string \<Rightarrow> AppError option" where
  "validateNotEmpty valueIsEmpty fieldName =
     (if valueIsEmpty then
        Some \<lparr>code = MISSING_REQUIRED_FIELD, message = fieldName @ '' is required'', statusCode = 400\<rparr>
      else None)"

definition validateEmail2 :: "string \<Rightarrow> string \<Rightarrow> AppError option" where
  "validateEmail2 email fieldName =
     (if \<not> validateEmail email then
        Some \<lparr>code = INVALID_EMAIL, message = fieldName @ '' is not valid'', statusCode = 400\<rparr>
      else None)"

definition validatePhone2 :: "string \<Rightarrow> string \<Rightarrow> AppError option" where
  "validatePhone2 phone fieldName =
     (if \<not> validatePhone phone then
        Some \<lparr>code = INVALID_PHONE, message = fieldName @ '' must be a valid phone number'',
              statusCode = 400\<rparr>
      else None)"

text \<open>
  Comparisons of \<^verbatim>\<open>Date\<close> objects go through their time values; with an Invalid
  Date (NaN) on either side they are false.
\<close>

definition dateGe :: "int option \<Rightarrow> int option \<Rightarrow> bool" where
  "dateGe a b = (case (a, b) of (Some x, Some y) \<Rightarrow> x \<ge> y | _ \<Rightarrow> False)"

definition dateLt :: "int option \<Rightarrow> int option \<Rightarrow> bool" where
  "dateLt a b = (case (a, b) of (Some x, Some y) \<Rightarrow> x < y | _ \<Rightarrow> False)"

definition validateDateRange :: "DateApi \<Rightarrow> int \<Rightarrow> string \<Rightarrow> string \<Rightarrow> AppError option" where
  "validateDateRange js now startDate endDate =
     (if dateGe (dateParse js startDate) (dateParse js endDate) then
        Some \<lparr>code = INVALID_INPUT, message = ''End time must be after start time'', statusCode = 400\<rparr>
      else if dateLt (dateParse js startDate) (Some now) then
        Some \<lparr>code = INVALID_INPUT, message = ''Appointment cannot be scheduled in the past'',
              statusCode = 400\<rparr>
      else None)"

text \<open>A sequence of validator calls: the first one that throws ends it.\<close>

fun firstError :: "AppError option list \<Rightarrow> AppError option" where
  "firstError [] = None"
| "firstError (Some e # _) = Some e"
| "firstError (None # rest) = firstError rest"

section \<open>Booking (src/server/routes/appointments.ts)\<close>

record BookAppointmentRequest =
  req_patientName :: string
  req_patientEmail :: string
  req_patientPhone :: string
  req_serviceId :: string
  req_providerId :: string
  req_startTime :: string
  req_endTime :: string

datatype book_response =
    Created string
  | ErrorResponse AppError
  | Failed500

text \<open>Lines 23-34 of \<open>bookAppointment\<close>, then line 37.\<close>

definition requiredFields :: "BookAppointmentRequest \<Rightarrow> AppError option" where
  "requiredFields r = firstError
     [validateNotEmpty (isEmptyValue (req_patientName r)) ''Patient name'',
      validateNotEmpty (isEmptyValue (req_patientEmail r)) ''Patient email'',
      validateNotEmpty (isEmptyValue (req_patientPhone r)) ''Patient phone'',
      validateNotEmpty (isEmptyValue (req_serviceId r)) ''Service ID'',
      validateNotEmpty (isEmptyValue (req_providerId r)) ''Provider ID'',
      validateNotEmpty (isEmptyValue (req_startTime r)) ''Start time'',
      validateNotEmpty (isEmptyValue (req_endTime r)) ''End time'',
      validateEmail2 (req_patientEmail r) ''Patient email'',
      validatePhone2 (req_patientPhone r) ''Patient phone'']"

definition bookingValidation :: "DateApi \<Rightarrow> int \<Rightarrow> BookAppointmentRequest \<Rightarrow> AppError option" where
  "bookingValidation js now r =
     firstError [requiredFields r, validateDateRange js now (req_startTime r) (req_endTime r)]"

text \<open>
  Lines 43-52: the double-booking query. \<open>newStart\<close> and \<open>newEnd\<close> are the
  strings the filter carries; the stored strings are compared with them as strings.
\<close>

definition existingBooking ::
  "'a Db_scheme \<Rightarrow> string \<Rightarrow> string \<Rightarrow> string \<Rightarrow> Appointment option" where
  "existingBooking db pid newStart newEnd =
     find (\<lambda>a. providerId a = pid \<and> activeStatus (status a)
              \<and> overlaps a \<lparr>startTime = newStart, endTime = newEnd\<rparr>)
          (appointments db)"

text \<open>
  \<open>now\<close> is the clock, \<open>newId\<close> the ObjectId that \<^verbatim>\<open>insertOne\<close> generates.
  The filter is built from \<^verbatim>\<open>endTime.toISOString()\<close> and
  \<^verbatim>\<open>startTime.toISOString()\<close>, which throw on an Invalid Date (a time that does
  not parse passes \<open>validateDateRange\<close> unless the start lies in the past); the
  handler then answers 500. The document inserted is the request as it came
  (\<^verbatim>\<open>...appointmentData\<close>), so it holds the client's own time strings. The
  request's \<open>customFieldValues\<close> are stored as they come and are left out.
\<close>

definition bookAppointment ::
  "DateApi \<Rightarrow> int \<Rightarrow> string \<Rightarrow> 'a Db_scheme \<Rightarrow> BookAppointmentRequest
   \<Rightarrow> book_response \<times> 'a Db_scheme" where
  "bookAppointment js now newId db r =
     (case bookingValidation js now r of
        Some err \<Rightarrow> (ErrorResponse err, db)
      | None \<Rightarrow>
         (case (dateParse js (req_startTime r), dateParse js (req_endTime r)) of
            (Some startT, Some endT) \<Rightarrow>
              (case existingBooking db (req_providerId r)
                      (toISOString js startT) (toISOString js endT) of
                 Some _ \<Rightarrow>
                   (ErrorResponse
                      \<lparr>code = DOUBLE_BOOKING,
                       message = ''This time slot is no longer available. Please select another slot.'',
                       statusCode = 409\<rparr>, db)
               | None \<Rightarrow>
                   (Created newId,
                    db\<lparr>appointments := appointments db @
                      [\<lparr>startTime = req_startTime r, endTime = req_endTime r,
                        doc_id = ObjectId newId,
                        patientName = req_patientName r,
                        patientEmail = req_patientEmail r,
                        patientPhone = req_patientPhone r,
                        serviceId = req_serviceId r,
                        providerId = req_providerId r,
                        status = pending,
                        createdAt = toISOString js now, updatedAt = toISOString js now,
                        rescheduleReason = None,
                        reminderSent = False, reminderSentAt = None\<rparr>]\<rparr>))
          | _ \<Rightarrow> (Failed500, db)))"

section \<open>Admin operations (routes/admin.ts, src/unnamed/part_001)\<close>

text \<open>
  \<^verbatim>\<open>new ObjectId(s)\<close> accepts a string of 24 hexadecimal digits and throws on
  any other string; equal digits in either case give equal ids. \<open>None\<close> is the throw.
\<close>

definition isHexDigit :: "char \<Rightarrow> bool" where
  "isHexDigit c = (c \<in> set ''0123456789abcdefABCDEF'')"

definition lowerHex :: "char \<Rightarrow> char" where
  "lowerHex c =
     (if c = CHR ''A'' then CHR ''a'' else if c = CHR ''B'' then CHR ''b''
      else if c = CHR ''C'' then CHR ''c'' else if c = CHR ''D'' then CHR ''d''
      else if c = CHR ''E'' then CHR ''e'' else if c = CHR ''F'' then CHR ''f'' else c)"

definition newObjectId :: "string \<Rightarrow> doc_id option" where
  "newObjectId s =
     (if length s = 24 \<and> list_all isHexDigit s then Some (ObjectId (map lowerHex s)) else None)"

fun idToString :: "doc_id \<Rightarrow> string" where
  "idToString (ObjectId h) = h"
| "idToString (RawId s) = s"

record User =
  role :: string
  user_providerId :: "string option"

datatype admin_response = JsonOk string | JsonError nat string

text \<open>
  \<^verbatim>\<open>req.user?.role === "provider" && appointment.providerId !== req.user.providerId\<close>
\<close>

definition otherProvider :: "User option \<Rightarrow> Appointment \<Rightarrow> bool" where
  "otherProvider user apt =
     (case user of None \<Rightarrow> False
      | Some u \<Rightarrow> role u = ''provider'' \<and> Some (providerId apt) \<noteq> user_providerId u)"

text \<open>\<^verbatim>\<open>updateOne(filter, {$set: ...})\<close>: the first matching document is updated;
  the result carries \<^verbatim>\<open>matchedCount\<close>.\<close>

fun updateOne ::
  "(Appointment \<Rightarrow> bool) \<Rightarrow> (Appointment \<Rightarrow> Appointment) \<Rightarrow> Appointment list
   \<Rightarrow> nat \<times> Appointment list" where
  "updateOne p f [] = (0, [])"
| "updateOne p f (a # rest) =
     (if p a then (1, f a # rest)
      else (fst (updateOne p f rest), a # snd (updateOne p f rest)))"

definition parseStatus :: "string \<Rightarrow> status option" where
  "parseStatus s =
     (if s = ''pending'' then Some pending
      else if s = ''confirmed'' then Some confirmed
      else if s = ''completed'' then Some completed
      else if s = ''cancelled'' then Some cancelled
      else None)"

text \<open>
  \<open>updateAppointmentStatus\<close>, lines 96-191. The lookup at line 107 builds the
  ObjectId outside any inner \<^verbatim>\<open>try\<close>, so an id that does not parse ends in the
  outer \<^verbatim>\<open>catch\<close> (500); so does a \<open>serviceId\<close> that does not parse at line 139,
  after the update has been written.
\<close>

definition updateAppointmentStatus ::
  "DateApi \<Rightarrow> int \<Rightarrow> User option \<Rightarrow> 'a Db_scheme \<Rightarrow> string \<Rightarrow> string
   \<Rightarrow> admin_response \<times> 'a Db_scheme" where
  "updateAppointmentStatus js now user db appointmentId statusText =
     (case parseStatus statusText of
        None \<Rightarrow> (JsonError 400 ''Invalid status'', db)
      | Some newStatus \<Rightarrow>
         (case newObjectId appointmentId of
            None \<Rightarrow> (JsonError 500 ''Failed to update appointment'', db)
          | Some oid \<Rightarrow>
             (case find (\<lambda>a. doc_id a = oid) (appointments db) of
                None \<Rightarrow> (JsonError 404 ''Appointment not found'', db)
              | Some appointment \<Rightarrow>
                  if otherProvider user appointment then
                    (JsonError 403 ''You can only modify your own appointments'', db)
                  else
                    let result = updateOne (\<lambda>a. doc_id a = oid)
                                   (\<lambda>a. a\<lparr>status := newStatus, updatedAt := toISOString js now\<rparr>)
                                   (appointments db);
                        db' = db\<lparr>appointments := snd result\<rparr>
                    in if fst result = 0 then (JsonError 404 ''Appointment not found'', db')
                       else (case newObjectId (serviceId appointment) of
                               None \<Rightarrow> (JsonError 500 ''Failed to update appointment'', db')
                             | Some _ \<Rightarrow> (JsonOk ''Appointment updated'', db')))))"

text \<open>
  \<open>rescheduleAppointment\<close>, lines 193-307. \<open>newStartTime\<close> and \<open>newEndTime\<close>
  are the strings of the request body, used as they come: they are neither parsed nor
  checked. \<open>reason\<close> is the empty string when the body has none
  (\<^verbatim>\<open>if (reason)\<close> is false for both).
\<close>

record RescheduleBody =
  newStartTime :: string
  newEndTime :: string
  reason :: string

text \<open>
  Lines 216-226: the conflict query, which leaves out the appointment being moved and
  compares the stored strings with the strings of the body.
\<close>

definition rescheduleConflict ::
  "'a Db_scheme \<Rightarrow> doc_id \<Rightarrow> Appointment \<Rightarrow> RescheduleBody \<Rightarrow> Appointment option" where
  "rescheduleConflict db oid appointment body =
     find (\<lambda>a. doc_id a \<noteq> oid \<and> providerId a = providerId appointment
              \<and> activeStatus (status a)
              \<and> overlaps a \<lparr>startTime = newStartTime body, endTime = newEndTime body\<rparr>)
          (appointments db)"

text \<open>Lines 232-240: the fields that \<^verbatim>\<open>$set\<close> writes.\<close>

definition updateData :: "DateApi \<Rightarrow> int \<Rightarrow> RescheduleBody \<Rightarrow> Appointment \<Rightarrow> Appointment" where
  "updateData js now body a =
     (let a' = a\<lparr>startTime := newStartTime body, endTime := newEndTime body,
                  updatedAt := toISOString js now\<rparr>
      in if reason body \<noteq> [] then a'\<lparr>rescheduleReason := Some (reason body)\<rparr> else a')"

definition rescheduleAppointment ::
  "DateApi \<Rightarrow> int \<Rightarrow> User option \<Rightarrow> 'a Db_scheme \<Rightarrow> string \<Rightarrow> RescheduleBody
   \<Rightarrow> admin_response \<times> 'a Db_scheme" where
  "rescheduleAppointment js now user db appointmentId body =
     (case (case newObjectId appointmentId of
              Some oid \<Rightarrow> find (\<lambda>a. doc_id a = oid) (appointments db)
            | None \<Rightarrow> find (\<lambda>a. doc_id a = RawId appointmentId) (appointments db)) of
        None \<Rightarrow> (JsonError 404 ''Appointment not found'', db)
      | Some appointment \<Rightarrow>
          if otherProvider user appointment then
            (JsonError 403 ''You can only reschedule your own appointments'', db)
          else
            (case newObjectId appointmentId of
               None \<Rightarrow> (JsonError 500 ''Failed to reschedule appointment'', db)
             | Some oid \<Rightarrow>
                (case rescheduleConflict db oid appointment body of
                   Some _ \<Rightarrow> (JsonError 409 ''Time slot conflicts with another appointment'', db)
                 | None \<Rightarrow>
                     let result = updateOne (\<lambda>a. doc_id a = oid) (updateData js now body)
                                    (appointments db);
                         db' = db\<lparr>appointments := snd result\<rparr>
                     in if fst result = 0 then (JsonError 404 ''Appointment not found'', db')
                        else (JsonOk ''Appointment rescheduled successfully'', db'))))"

section \<open>Reminder scheduler (scheduler.ts, src/unnamed/part_000)\<close>

datatype reminder_type = email | sms | both

text \<open>
  An entry of the module-level map \<^verbatim>\<open>scheduledReminders\<close>: the pending
  \<^verbatim>\<open>setTimeout\<close> with what its callback will do. \<open>cleared\<close> records
  \<^verbatim>\<open>clearTimeout\<close> on a handle that stays in the map.
\<close>

record Timeout =
  t_appointmentId :: string
  t_type :: reminder_type
  t_sendTime :: int
  cleared :: bool

record ServerState = Db +
  scheduledReminders :: "string \<Rightarrow> Timeout option"

fun showNat :: "nat \<Rightarrow> string" where
  "showNat n = (if n < 10 then [''0123456789'' ! n]
                else showNat (n div 10) @ [''0123456789'' ! (n mod 10)])"

declare showNat.simps [simp del]

definition showInt :: "int \<Rightarrow> string" where
  "showInt i = (if i < 0 then CHR ''-'' # showNat (nat (- i)) else showNat (nat i))"

definition reminderKey :: "string \<Rightarrow> int \<Rightarrow> string" where
  "reminderKey appointmentId sendTime = appointmentId @ ''_'' @ showInt sendTime"

definition scheduleReminder ::
  "int \<Rightarrow> string \<Rightarrow> int \<Rightarrow> reminder_type \<Rightarrow> ServerState \<Rightarrow> ServerState" where
  "scheduleReminder now appointmentId sendTime type st =
     (let key = reminderKey appointmentId sendTime;
          m = scheduledReminders st;
          m1 = (case m key of Some t \<Rightarrow> m(key \<mapsto> t\<lparr>cleared := True\<rparr>) | None \<Rightarrow> m);
          delayMs = sendTime - now
      in if delayMs > 0 then
           st\<lparr>scheduledReminders :=
                m1(key \<mapsto> \<lparr>t_appointmentId = appointmentId, t_type = type,
                            t_sendTime = sendTime, cleared = False\<rparr>)\<rparr>
         else st\<lparr>scheduledReminders := m1\<rparr>)"

definition cancelReminder :: "string \<Rightarrow> ServerState \<Rightarrow> ServerState" where
  "cancelReminder appointmentId st =
     st\<lparr>scheduledReminders :=
          (\<lambda>key. if prefix appointmentId key then None else scheduledReminders st key)\<rparr>"

text \<open>Lines 24-52: start-up reconciliation. A start time that does not parse gives an
  Invalid Date, for which \<^verbatim>\<open>reminderTime > now\<close> is false.\<close>

definition scheduleExistingAppointments :: "DateApi \<Rightarrow> int \<Rightarrow> ServerState \<Rightarrow> ServerState" where
  "scheduleExistingAppointments js now st =
     fold (\<lambda>apt s.
             case dateParse js (startTime apt) of
               None \<Rightarrow> s
             | Some t \<Rightarrow>
                 let reminderTime = t - 24 * 60 * 60 * 1000
                 in if reminderTime > now
                    then scheduleReminder now (idToString (doc_id apt)) reminderTime both s
                    else s)
          (filter (\<lambda>apt. startTime apt \<ge> toISOString js now
                        \<and> startTime apt \<le> toISOString js (now + 30 * 24 * 60 * 60 * 1000)
                        \<and> activeStatus (status apt) \<and> \<not> reminderSent apt)
                  (appointments st))
          st"

text \<open>Lines 187-202: what the periodic sweep selects.
  \<open>reminderHoursBefore\<close> is the setting, when the settings record has one.\<close>

definition reminderHours :: "int option \<Rightarrow> int" where
  "reminderHours reminderHoursBefore =
     (case reminderHoursBefore of None \<Rightarrow> 24 | Some h \<Rightarrow> if h = 0 then 24 else h)"

definition appointmentsNeedingReminders ::
  "DateApi \<Rightarrow> int \<Rightarrow> int option \<Rightarrow> 'a Db_scheme \<Rightarrow> Appointment list" where
  "appointmentsNeedingReminders js now reminderHoursBefore db =
     filter (\<lambda>apt. startTime apt \<ge> toISOString js now
                  \<and> startTime apt
                      \<le> toISOString js (now + reminderHours reminderHoursBefore * 60 * 60 * 1000)
                  \<and> activeStatus (status apt) \<and> \<not> reminderSent apt)
            (appointments db)"


section \<open>An engine and states for the examples\<close>

text \<open>
  \<open>isoFormat\<close> is \<^verbatim>\<open>toISOString()\<close> as ECMAScript defines it (proleptic
  Gregorian calendar, UTC, four-digit years from 0 to 9999 and signed six-digit years
  outside). \<open>isoParse\<close> reads the two ISO forms that occur in the examples,
  \<^verbatim>\<open>YYYY-MM-DDTHH:mm:ss.sssZ\<close> and \<^verbatim>\<open>YYYY-MM-DDTHH:mm:ssZ\<close>; what an
  engine makes of other strings plays no part in them. The general theorems hold for
  every \<open>DateApi\<close>.
\<close>

definition digit :: "int \<Rightarrow> char" where
  "digit n = ''0123456789'' ! nat (n mod 10)"

definition pad2 :: "int \<Rightarrow> string" where
  "pad2 n = [digit (n div 10), digit n]"

definition pad3 :: "int \<Rightarrow> string" where
  "pad3 n = [digit (n div 100), digit (n div 10), digit n]"

definition pad4 :: "int \<Rightarrow> string" where
  "pad4 n = [digit (n div 1000), digit (n div 100), digit (n div 10), digit n]"

definition pad6 :: "int \<Rightarrow> string" where
  "pad6 n = [digit (n div 100000), digit (n div 10000), digit (n div 1000),
             digit (n div 100), digit (n div 10), digit n]"

definition civilFromDays :: "int \<Rightarrow> int \<times> int \<times> int" where
  "civilFromDays z0 =
     (let z = z0 + 719468;
          era = z div 146097;
          doe = z mod 146097;
          yoe = (doe - doe div 1460 + doe div 36524 - doe div 146096) div 365;
          doy = doe - (365 * yoe + yoe div 4 - yoe div 100);
          mp = (5 * doy + 2) div 153;
          d = doy - (153 * mp + 2) div 5 + 1;
          m = (if mp < 10 then mp + 3 else mp - 9);
          y = yoe + era * 400 + (if m \<le> 2 then 1 else 0)
      in (y, m, d))"

definition daysFromCivil :: "int \<Rightarrow> int \<Rightarrow> int \<Rightarrow> int" where
  "daysFromCivil y0 m d =
     (let y = (if m \<le> 2 then y0 - 1 else y0);
          era = y div 400;
          yoe = y mod 400;
          doy = (153 * (if m > 2 then m - 3 else m + 9) + 2) div 5 + d - 1;
          doe = yoe * 365 + yoe div 4 - yoe div 100 + doy
      in era * 146097 + doe - 719468)"

definition isoFormat :: "int \<Rightarrow> string" where
  "isoFormat t =
     (let (y, m, d) = civilFromDays (t div 86400000);
          r = t mod 86400000
      in (if 0 \<le> y \<and> y \<le> 9999 then pad4 y
          else if y < 0 then CHR ''-'' # pad6 (- y) else CHR ''+'' # pad6 y)
         @ ''-'' @ pad2 m @ ''-'' @ pad2 d @ ''T''
         @ pad2 (r div 3600000) @ '':'' @ pad2 (r div 60000 mod 60) @ '':''
         @ pad2 (r div 1000 mod 60) @ ''.'' @ pad3 (r mod 1000) @ ''Z'')"

definition digitsValue :: "string \<Rightarrow> int option" where
  "digitsValue s =
     (if s \<noteq> [] \<and> list_all (\<lambda>c. c \<in> set ''0123456789'') s
      then Some (foldl (\<lambda>v c. 10 * v + int (of_char c) - 48) 0 s) else None)"

definition isoParse :: "string \<Rightarrow> int option" where
  "isoParse s =
     (let n = length s;
          field = (\<lambda>i k. digitsValue (take k (drop i s)));
          sep = (\<lambda>i c. i < n \<and> s ! i = c)
      in if (n = 20 \<or> n = 24) \<and> sep 4 CHR ''-'' \<and> sep 7 CHR ''-'' \<and> sep 10 CHR ''T''
            \<and> sep 13 CHR '':'' \<and> sep 16 CHR '':'' \<and> sep (n - 1) CHR ''Z''
            \<and> (n = 24 \<longrightarrow> sep 19 CHR ''.'')
         then (case (field 0 4, field 5 2, field 8 2, field 11 2, field 14 2, field 17 2,
                     if n = 24 then field 20 3 else Some 0) of
                 (Some y, Some m, Some d, Some hh, Some mi, Some ss, Some ms) \<Rightarrow>
                   if 1 \<le> m \<and> m \<le> 12 \<and> 1 \<le> d \<and> d \<le> 31 \<and> hh \<le> 23 \<and> mi \<le> 59 \<and> ss \<le> 59
                   then Some (daysFromCivil y m d * 86400000 + hh * 3600000 + mi * 60000
                              + ss * 1000 + ms)
                   else None
               | _ \<Rightarrow> None)
         else None)"

definition isoDates :: DateApi where
  "isoDates = \<lparr>dateParse = isoParse, toISOString = isoFormat\<rparr>"

definition exampleAppointment ::
  "string \<Rightarrow> string \<Rightarrow> string \<Rightarrow> string \<Rightarrow> status \<Rightarrow> Appointment" where
  "exampleAppointment hexId pid s e st =
     \<lparr>startTime = s, endTime = e, doc_id = ObjectId hexId,
      patientName = ''Pat Doe'', patientEmail = ''pat@example.org'', patientPhone = ''555 010 0199'',
      serviceId = ''64b7f0c2a1d3e4f5a6b7c8d9'', providerId = pid, status = st,
      createdAt = ''2026-10-30T09:00:00.000Z'', updatedAt = ''2026-10-30T09:00:00.000Z'',
      rescheduleReason = None, reminderSent = False, reminderSentAt = None\<rparr>"

definition weekdayHours :: "BusinessHours list" where
  "weekdayHours =
     [\<lparr>dayOfWeek = 1, bhStartTime = (9, 0), bhEndTime = (17, 0), isOpen = True\<rparr>,
      \<lparr>dayOfWeek = 2, bhStartTime = (9, 0), bhEndTime = (17, 0), isOpen = True\<rparr>,
      \<lparr>dayOfWeek = 3, bhStartTime = (9, 0), bhEndTime = (17, 0), isOpen = True\<rparr>,
      \<lparr>dayOfWeek = 4, bhStartTime = (9, 0), bhEndTime = (17, 0), isOpen = True\<rparr>,
      \<lparr>dayOfWeek = 5, bhStartTime = (9, 0), bhEndTime = (17, 0), isOpen = True\<rparr>,
      \<lparr>dayOfWeek = 0, bhStartTime = (0, 0), bhEndTime = (0, 0), isOpen = False\<rparr>,
      \<lparr>dayOfWeek = 6, bhStartTime = (0, 0), bhEndTime = (0, 0), isOpen = False\<rparr>]"

text \<open>Monday 2026-11-02, one confirmed appointment 10:00-10:30.\<close>

definition scenarioDb :: Db where
  "scenarioDb =
     \<lparr>appointments =
        [exampleAppointment ''64b7f0c2a1d3e4f5a6b7c8e1'' ''p1''
           ''2026-11-02T10:00:00.000Z'' ''2026-11-02T10:30:00.000Z'' confirmed],
      availability =
        [\<lparr>av_providerId = ''p1'', businessHours = weekdayHours, blockedDates = []\<rparr>]\<rparr>"

definition scenarioQuery :: SlotsQuery where
  "scenarioQuery = \<lparr>q_providerId = ''p1'', q_date = Parsed 1793577600000, q_duration = Parsed 30\<rparr>"

text \<open>Open Monday 00:00-01:00, one confirmed appointment Sunday 23:30 to Monday 00:30.\<close>

definition nightDb :: Db where
  "nightDb =
     \<lparr>appointments =
        [exampleAppointment ''64b7f0c2a1d3e4f5a6b7c8e2'' ''p1''
           ''2026-11-01T23:30:00.000Z'' ''2026-11-02T00:30:00.000Z'' confirmed],
      availability =
        [\<lparr>av_providerId = ''p1'',
          businessHours = [\<lparr>dayOfWeek = 1, bhStartTime = (0, 0), bhEndTime = (1, 0), isOpen = True\<rparr>],
          blockedDates = []\<rparr>]\<rparr>"

definition nightQuery :: SlotsQuery where
  "nightQuery = \<lparr>q_providerId = ''p1'', q_date = Parsed 1793577600000, q_duration = Parsed 30\<rparr>"

definition validRequest :: BookAppointmentRequest where
  "validRequest =
     \<lparr>req_patientName = ''Pat Doe'', req_patientEmail = ''pat@example.org'',
      req_patientPhone = ''555 010 0199'', req_serviceId = ''64b7f0c2a1d3e4f5a6b7c8d9'',
      req_providerId = ''p1'',
      req_startTime = ''2026-11-02T10:00:00.000Z'', req_endTime = ''2026-11-02T10:30:00.000Z''\<rparr>"



definition twoBookings :: Db where
  "twoBookings =
     \<lparr>appointments =
        [exampleAppointment ''64b7f0c2a1d3e4f5a6b7c8e1'' ''p1''
           ''2026-11-02T10:00:00.000Z'' ''2026-11-02T10:30:00.000Z'' confirmed,
         exampleAppointment ''64b7f0c2a1d3e4f5a6b7c8e4'' ''p1''
           ''2026-11-02T11:00:00.000Z'' ''2026-11-02T11:30:00.000Z'' pending],
      availability = []\<rparr>"

definition moveBody :: RescheduleBody where
  "moveBody =
     \<lparr>newStartTime = ''2026-11-02T10:15:00.000Z'', newEndTime = ''2026-11-02T10:45:00.000Z'',
      reason = ''patient asked''\<rparr>"


definition reminderState :: ServerState where
  "reminderState =
     \<lparr>appointments =
        [exampleAppointment ''64b7f0c2a1d3e4f5a6b7c8e3'' ''p1''
           ''2026-11-05T10:00:00.000Z'' ''2026-11-05T10:30:00.000Z'' confirmed],
      availability = [],
      scheduledReminders = Map.empty\<rparr>"

definition armedState :: ServerState where
  "armedState = scheduleExistingAppointments isoDates 1793577600000 reminderState"

section \<open>The engine on the example strings\<close>

lemma isoFormat_examples:
  "isoFormat 1793500000000 = ''2026-11-01T02:26:40.000Z''"
  "isoFormat 1793700000000 = ''2026-11-03T10:00:00.000Z''"
  "isoFormat 1793577600000 = ''2026-11-02T00:00:00.000Z''"
  "isoFormat 1793663999999 = ''2026-11-02T23:59:59.999Z''"
  "isoFormat 1793613600000 = ''2026-11-02T10:00:00.000Z''"
  "isoFormat 1793615400000 = ''2026-11-02T10:30:00.000Z''"
  "isoFormat 1793579400000 = ''2026-11-02T00:30:00.000Z''"
  "isoFormat 1793577601000 = ''2026-11-02T00:00:01.000Z''"
  "isoFormat 1793800000000 = ''2026-11-04T13:46:40.000Z''"
  "isoFormat 1793886400000 = ''2026-11-05T13:46:40.000Z''"
  "isoFormat 1796169600000 = ''2026-12-02T00:00:00.000Z''"
  "isoFormat 1793703600000 = ''2026-11-03T11:00:00.000Z''"
  "isoFormat 1793705400000 = ''2026-11-03T11:30:00.000Z''"
  by code_simp+

lemma isoParse_examples:
  "isoParse ''2026-11-02T10:00:00.000Z'' = Some 1793613600000"
  "isoParse ''2026-11-02T10:30:00.000Z'' = Some 1793615400000"
  "isoParse ''2026-11-01T23:30:00.000Z'' = Some 1793575800000"
  "isoParse ''2026-11-02T00:30:00.000Z'' = Some 1793579400000"
  "isoParse ''2026-11-02T11:00:00.000Z'' = Some 1793617200000"
  "isoParse ''2026-11-02T11:30:00.000Z'' = Some 1793619000000"
  "isoParse ''2026-11-05T10:00:00.000Z'' = Some 1793872800000"
  "isoParse ''2026-11-03T10:30:00Z'' = Some 1793701800000"
  "isoParse ''2026-11-03T11:00:00Z'' = Some 1793703600000"
  "isoParse ''2026-11-03T11:00:00.000Z'' = Some 1793703600000"
  "isoParse ''2026-11-03T11:30:00.000Z'' = Some 1793705400000"
  "isoParse ''2026-11-02T10:15:00Z'' = Some 1793614500000"
  "isoParse ''2026-11-02T11:00:00Z'' = Some 1793617200000"
  by code_simp+

lemma isoDates_simps:
  "dateParse isoDates = isoParse" "toISOString isoDates = isoFormat"
  by (simp_all add: isoDates_def)


section \<open>The slot walk\<close>

lemma slotWalk_stop:
  "\<not> c + d * 60000 \<le> e \<Longrightarrow> slotWalk js booked d e c acc = Some acc"
  by (subst slotWalk.simps) simp

lemma slotWalk_step:
  "c + d * 60000 \<le> e \<Longrightarrow>
   slotWalk js booked d e c acc =
   slotWalk js booked d e (c + d * 60000)
     (if accepted js booked \<lparr>startTime = c, endTime = c + d * 60000, isAvailable = True\<rparr>
      then acc @ [\<lparr>startTime = c, endTime = c + d * 60000, isAvailable = True\<rparr>]
      else acc)"
  by (subst slotWalk.simps) (simp add: Let_def accepted_def)

lemma candidateSlots_Nil:
  assumes "0 < d" "\<not> c + d * 60000 \<le> e"
  shows "candidateSlots c e d = []"
proof -
  let ?w = "d * 60000"
  have pos: "0 < ?w" using assms by simp
  from assms have "e - c \<le> ?w - 1" by simp
  then have "(e - c) div ?w \<le> (?w - 1) div ?w"
    using pos by (rule zdiv_mono1)
  also have "(?w - 1) div ?w = 0"
    using pos by (simp add: div_pos_pos_trivial)
  finally show ?thesis by (simp add: candidateSlots_def)
qed

lemma candidateSlots_Cons:
  assumes "0 < d" "c + d * 60000 \<le> e"
  shows "candidateSlots c e d =
         \<lparr>startTime = c, endTime = c + d * 60000, isAvailable = True\<rparr>
         # candidateSlots (c + d * 60000) e d"
proof -
  let ?s = "d * 60000"
  have pos: "0 < ?s" using assms by simp
  have "e - c = (e - (c + ?s)) + 1 * ?s" by simp
  then have "(e - c) div ?s = (e - (c + ?s)) div ?s + 1"
    using pos by (metis div_mult_self1 less_irrefl add.commute)
  moreover have "0 \<le> (e - (c + ?s)) div ?s"
    using assms pos by (simp add: pos_imp_zdiv_nonneg_iff)
  ultimately have n: "nat ((e - c) div ?s) = Suc (nat ((e - (c + ?s)) div ?s))"
    by simp
  show ?thesis
    unfolding candidateSlots_def n map_upt_Suc
    by (simp add: algebra_simps)
qed

lemma slotWalk_closed:
  assumes "0 < d"
  shows "slotWalk js booked d e c acc = Some (acc @ filter (accepted js booked) (candidateSlots c e d))"
proof (induction "nat (e - c)" arbitrary: c acc rule: less_induct)
  case less
  show ?case
  proof (cases "c + d * 60000 \<le> e")
    case False
    then show ?thesis
      using assms by (simp add: slotWalk_stop candidateSlots_Nil)
  next
    case True
    have "nat (e - (c + d * 60000)) < nat (e - c)"
      using assms True by simp
    from less [OF this] show ?thesis
      using assms True by (simp add: slotWalk_step candidateSlots_Cons)
  qed
qed

lemma slotWalk_nonpos_diverges:
  assumes "slotWalk js booked d e c acc = Some ys"
  shows "d \<le> 0 \<longrightarrow> \<not> c + d * 60000 \<le> e"
proof (rule slotWalk.raw_induct
    [where P = "\<lambda>js booked d e c acc ys. d \<le> 0 \<longrightarrow> \<not> c + d * 60000 \<le> e", OF _ assms])
  fix f js booked d e c acc ys
  assume IH: "\<And>js booked d e c acc ys. f js booked d e c acc = Some ys \<Longrightarrow>
                d \<le> 0 \<longrightarrow> \<not> c + d * 60000 \<le> e"
    and step: "(if c + d * 60000 \<le> e then
        let slotEnd = c + d * 60000;
            slot = \<lparr>startTime = c, endTime = slotEnd, isAvailable = True\<rparr>;
            isConflict = list_ex (\<lambda>apt. slotConflictsWith js slot apt) booked
        in f js booked d e (c + d * 60000) (if \<not> isConflict then acc @ [slot] else acc)
      else Some acc) = Some ys"
  show "d \<le> 0 \<longrightarrow> \<not> c + d * 60000 \<le> e"
  proof (intro impI notI)
    assume d: "d \<le> 0" and g: "c + d * 60000 \<le> e"
    from step g obtain acc' where "f js booked d e (c + d * 60000) acc' = Some ys"
      by (simp add: Let_def split: if_splits)
    from IH [OF this] d g show False by simp
  qed
qed

lemma slotWalk_nonpos:
  "d \<le> 0 \<Longrightarrow> slotWalk js booked d e c acc = (if c + d * 60000 \<le> e then None else Some acc)"
  using slotWalk_nonpos_diverges [of js booked d e c acc] slotWalk_stop [of c d e js booked acc]
  by (cases "slotWalk js booked d e c acc") auto



lemma slotWalk_result:
  assumes "slotWalk js booked d e c [] = Some allSlots" "s \<in> set allSlots"
  shows "0 < d \<and> s \<in> set (candidateSlots c e d) \<and> accepted js booked s"
proof (cases "0 < d")
  case True
  with assms show ?thesis by (auto simp: slotWalk_closed)
next
  case False
  with assms show ?thesis by (auto simp: slotWalk_nonpos split: if_splits)
qed

lemma shuffle_set:
  assumes "\<And>xs. mset (shuffle xs) = mset xs"
  shows "set (shuffle xs) = set xs"
  using assms by (rule mset_eq_setD)

lemma shuffle_length:
  assumes "\<And>xs. mset (shuffle xs) = mset xs"
  shows "length (shuffle xs) = length xs"
  using assms by (rule mset_eq_length)

lemma getAvailableSlots_cases:
  assumes "getAvailableSlots js shuffle tz db q = Some (SlotsJson slots)"
    and "slot \<in> set slots"
    and "\<And>xs. mset (shuffle xs) = mset xs"
  obtains avail selectedDate bh d allSlots where
    "find (\<lambda>a. av_providerId a = q_providerId q) (availability db) = Some avail"
    "q_date q = Parsed selectedDate"
    "find (\<lambda>bh. dayOfWeek bh = getDay tz selectedDate) (businessHours avail) = Some bh"
    "isOpen bh" "isoDateString selectedDate \<notin> set (blockedDates avail)"
    "q_duration q = Parsed d"
    "slotWalk js (bookedAppointments js db (q_providerId q) (setHours tz selectedDate 0 0 0 0)
                 (setHours tz selectedDate 23 59 59 999))
              d (endDateTime tz selectedDate bh) (startDateTime tz selectedDate bh) [] = Some allSlots"
    "slot \<in> set allSlots"
proof -
  let ?R = "getAvailableSlots js shuffle tz db q"
  have e: "shuffle [] = []" using assms(3) [of "[]"] by simp
  have ne: "slots \<noteq> []" using assms(2) by auto
  have q: "q_providerId q \<noteq> []" "q_date q \<noteq> Absent" "q_duration q \<noteq> Absent"
    using assms(1) by (auto simp: getAvailableSlots_def split: if_splits)
  obtain avail where a: "find (\<lambda>a. av_providerId a = q_providerId q) (availability db) = Some avail"
    using assms(1) q
    by (cases "find (\<lambda>a. av_providerId a = q_providerId q) (availability db)")
       (simp_all add: getAvailableSlots_def)
  obtain selectedDate where sd: "q_date q = Parsed selectedDate"
    using assms(1) q a by (cases "q_date q") (simp_all add: getAvailableSlots_def)
  obtain bh where b: "find (\<lambda>bh. dayOfWeek bh = getDay tz selectedDate) (businessHours avail) = Some bh"
    using assms(1) q a sd ne
    by (cases "find (\<lambda>bh. dayOfWeek bh = getDay tz selectedDate) (businessHours avail)")
       (simp_all add: getAvailableSlots_def Let_def)
  have o: "isOpen bh" "isoDateString selectedDate \<notin> set (blockedDates avail)"
    using assms(1) q a sd b ne
    by (auto simp: getAvailableSlots_def Let_def split: if_splits)
  obtain d where d: "q_duration q = Parsed d"
    using assms(1) q a sd b o ne e
    by (cases "q_duration q") (simp_all add: getAvailableSlots_def Let_def)
  let ?W = "slotWalk js (bookedAppointments js db (q_providerId q) (setHours tz selectedDate 0 0 0 0)
                 (setHours tz selectedDate 23 59 59 999))
              d (endDateTime tz selectedDate bh) (startDateTime tz selectedDate bh) []"
  have r: "?R = (case ?W of None \<Rightarrow> None | Some allSlots \<Rightarrow> Some (SlotsJson (take 8 (shuffle allSlots))))"
    using q a sd b o d by (simp add: getAvailableSlots_def Let_def)
  then obtain allSlots where w: "?W = Some allSlots" and sl: "slots = take 8 (shuffle allSlots)"
    using assms(1) by (cases ?W) simp_all
  have "slot \<in> set allSlots"
    using assms(2) sl shuffle_set [of shuffle allSlots, OF assms(3)] by (auto dest: in_set_takeD)
  with a sd b o d w show ?thesis by (rule that)
qed



text \<open>
  C8. The overlap test \<open>A.start < B.end \<and> A.end > B.start\<close>, which both the slot
  walk and the two conflict queries use, is symmetric in its arguments, and an interval
  with \<open>start < end\<close> overlaps itself.
\<close>

theorem overlaps_symmetric_reflexive:
  "overlaps A B = overlaps B A \<and> (startTime A < endTime A \<longrightarrow> overlaps A A)"
  by (auto simp: overlaps_def)

theorem overlaps_symmetric_reflexive_witness:
  "overlaps \<lparr>startTime = 540::int, endTime = 570\<rparr> \<lparr>startTime = 560::int, endTime = 600\<rparr>
     = overlaps \<lparr>startTime = 560::int, endTime = 600\<rparr> \<lparr>startTime = 540::int, endTime = 570\<rparr>
   \<and> overlaps \<lparr>startTime = 540::int, endTime = 570\<rparr> \<lparr>startTime = 540::int, endTime = 570\<rparr>"
proof -
  have h: "startTime \<lparr>startTime = 540::int, endTime = 570\<rparr> < endTime \<lparr>startTime = 540::int, endTime = 570\<rparr>"
    by simp
  from overlaps_symmetric_reflexive [of "\<lparr>startTime = 540::int, endTime = 570\<rparr>" "\<lparr>startTime = 560::int, endTime = 600\<rparr>"] h
  show ?thesis by blast
qed

text \<open>
  C10. For a duration of at least one minute the slot walk exits its loop from any
  cursor, and so the handler answers. For a duration of zero or less and a cursor not
  past the end of the window the loop never exits.
\<close>

theorem slotWalk_terminates:
  "(0 < durationMinutes \<longrightarrow>
      (\<exists>slots. slotWalk js booked durationMinutes dayEnd currentSlot allSlots = Some slots))
   \<and> (durationMinutes \<le> 0 \<and> currentSlot \<le> dayEnd \<longrightarrow>
      slotWalk js booked durationMinutes dayEnd currentSlot allSlots = None)
   \<and> (q_duration q = Parsed durationMinutes \<and> 0 < durationMinutes \<longrightarrow>
      getAvailableSlots js shuffle tz db q \<noteq> None)"
proof (intro conjI impI)
  assume "0 < durationMinutes"
  then show "\<exists>slots. slotWalk js booked durationMinutes dayEnd currentSlot allSlots = Some slots"
    by (simp add: slotWalk_closed)
next
  assume "durationMinutes \<le> 0 \<and> currentSlot \<le> dayEnd"
  then have "durationMinutes \<le> 0" "currentSlot + durationMinutes * 60000 \<le> dayEnd"
    by simp_all
  then show "slotWalk js booked durationMinutes dayEnd currentSlot allSlots = None"
    by (simp add: slotWalk_nonpos)
next
  assume "q_duration q = Parsed durationMinutes \<and> 0 < durationMinutes"
  then show "getAvailableSlots js shuffle tz db q \<noteq> None"
    by (simp add: getAvailableSlots_def Let_def slotWalk_closed
        split: option.splits parsed.splits)
qed

theorem slotWalk_terminates_witness:
  "(\<exists>slots. slotWalk isoDates [] 30 3600000 0 [] = Some slots)
   \<and> slotWalk isoDates [] 0 3600000 0 [] = None
   \<and> getAvailableSlots isoDates rev 0 scenarioDb scenarioQuery \<noteq> None"
proof -
  have h: "(0::int) < 30" "(0::int) \<le> 0 \<and> (0::int) \<le> 3600000"
    "q_duration scenarioQuery = Parsed 30 \<and> (0::int) < 30"
    by (simp_all add: scenarioQuery_def)
  from slotWalk_terminates
    [of 30 isoDates "[]" 3600000 0 "[]" scenarioQuery rev 0 scenarioDb] h
  have a: "\<exists>slots. slotWalk isoDates [] 30 3600000 0 [] = Some slots"
    and c: "getAvailableSlots isoDates rev 0 scenarioDb scenarioQuery \<noteq> None" by blast+
  from slotWalk_terminates [of 0 isoDates "[]" 3600000 0 "[]"] h
  have b: "slotWalk isoDates [] 0 3600000 0 [] = None" by blast
  from a b c show ?thesis by blast
qed

text \<open>
  What the handler returns on an open, unblocked day for a positive duration:
  \<open>min 8 n\<close> slots, where \<open>n\<close> counts the candidates that its test lets through
  against the appointments it fetched.
\<close>

lemma slots_sample_of_accepted:
  assumes "\<And>xs. mset (shuffle xs) = mset xs"
    and "q_providerId q \<noteq> []"
    and "find (\<lambda>a. av_providerId a = q_providerId q) (availability db) = Some avail"
    and "q_date q = Parsed selectedDate"
    and "find (\<lambda>bh. dayOfWeek bh = getDay tz selectedDate) (businessHours avail) = Some bh"
    and "isOpen bh" and "isoDateString selectedDate \<notin> set (blockedDates avail)"
    and "q_duration q = Parsed durationMinutes" and "0 < durationMinutes"
  shows "\<exists>slots. getAvailableSlots js shuffle tz db q = Some (SlotsJson slots)
           \<and> length slots =
               min 8 (length (filter
                 (accepted js (bookedAppointments js db (q_providerId q)
                              (setHours tz selectedDate 0 0 0 0) (setHours tz selectedDate 23 59 59 999)))
                 (candidateSlots (startDateTime tz selectedDate bh) (endDateTime tz selectedDate bh)
                    durationMinutes)))"
  using assms(2-9) shuffle_length [of shuffle, OF assms(1)]
  by (simp add: getAvailableSlots_def Let_def slotWalk_closed min.commute)

text \<open>
  No returned slot overlaps an appointment that the fetch selected, that is, an active
  appointment of the provider whose stored \<open>startTime\<close> lies, as a string, between
  the renderings of the first and the last millisecond of the requested calendar day.
\<close>

lemma returned_slots_avoid_fetched:
  assumes "getAvailableSlots js shuffle tz db q = Some (SlotsJson slots)"
    and "slot \<in> set slots"
    and "\<And>xs. mset (shuffle xs) = mset xs"
    and "q_date q = Parsed selectedDate"
    and "apt \<in> set (bookedAppointments js db (q_providerId q)
                       (setHours tz selectedDate 0 0 0 0) (setHours tz selectedDate 23 59 59 999))"
  shows "\<not> slotConflictsWith js slot apt"
proof -
  from assms(1-3) obtain avail sd bh d allSlots where
    sd: "q_date q = Parsed sd"
    and w: "slotWalk js (bookedAppointments js db (q_providerId q) (setHours tz sd 0 0 0 0)
                 (setHours tz sd 23 59 59 999))
              d (endDateTime tz sd bh) (startDateTime tz sd bh) [] = Some allSlots"
       "slot \<in> set allSlots"
    by (rule getAvailableSlots_cases)
  from sd assms(4) have "sd = selectedDate" by simp
  with slotWalk_result [OF w] assms(5) show ?thesis
    by (auto simp: accepted_def list_ex_iff)
qed

lemma day_bounds:
  "setHours 0 1793577600000 0 0 0 0 = 1793577600000"
  "setHours 0 1793577600000 23 59 59 999 = 1793663999999"
  by (simp_all add: setHours_def localMidnight_def)

lemma night_window:
  "startDateTime 0 1793577600000
     \<lparr>dayOfWeek = 1, bhStartTime = (0, 0), bhEndTime = (1, 0), isOpen = True\<rparr> = 1793577600000"
  "endDateTime 0 1793577600000
     \<lparr>dayOfWeek = 1, bhStartTime = (0, 0), bhEndTime = (1, 0), isOpen = True\<rparr> = 1793581200000"
  by (simp_all add: startDateTime_def endDateTime_def setHours_def localMidnight_def)

lemma night_availability:
  "availability nightDb =
     [\<lparr>av_providerId = ''p1'',
       businessHours = [\<lparr>dayOfWeek = 1, bhStartTime = (0, 0), bhEndTime = (1, 0), isOpen = True\<rparr>],
       blockedDates = []\<rparr>]"
  by (simp add: nightDb_def)

lemma night_fetched:
  "bookedAppointments isoDates nightDb ''p1'' 1793577600000 1793663999999 = []"
  by (simp add: bookedAppointments_def isoDates_simps isoFormat_examples nightDb_def
      exampleAppointment_def)

lemma night_result:
  "getAvailableSlots isoDates (\<lambda>xs. xs) 0 nightDb nightQuery =
     Some (SlotsJson
       [\<lparr>startTime = 1793577600000, endTime = 1793579400000, isAvailable = True\<rparr>,
        \<lparr>startTime = 1793579400000, endTime = 1793581200000, isAvailable = True\<rparr>])"
proof -
  have "getAvailableSlots isoDates (\<lambda>xs. xs) 0 nightDb nightQuery =
        (case slotWalk isoDates [] 30 1793581200000 1793577600000 [] of
           None \<Rightarrow> None
         | Some allSlots \<Rightarrow> Some (SlotsJson (take 8 allSlots)))"
    by (simp add: getAvailableSlots_def Let_def nightQuery_def night_availability getDay_def
        isoDateString_def day_bounds night_fetched night_window)
  then show ?thesis by (simp add: slotWalk.simps)
qed

text \<open>
  C1. The fetch at lines 35-42 selects by \<open>startTime\<close> inside the calendar day, so
  an active appointment that starts before local midnight and ends after it is not among
  the appointments the walk tests. Provider \<open>p1\<close> is open Monday 00:00-01:00 and has a
  confirmed appointment from Sunday 23:30 to Monday 00:30; for Monday 2026-11-02 and
  30 minutes the handler offers 00:00-00:30, which lies inside that appointment, and
  which the double-booking query of \<open>bookAppointment\<close> finds taken.
\<close>

theorem slots_offer_booked_interval:
  "getAvailableSlots isoDates (\<lambda>xs. xs) 0 nightDb nightQuery =
     Some (SlotsJson
       [\<lparr>startTime = 1793577600000, endTime = 1793579400000, isAvailable = True\<rparr>,
        \<lparr>startTime = 1793579400000, endTime = 1793581200000, isAvailable = True\<rparr>])
   \<and> appointments nightDb =
       [exampleAppointment ''64b7f0c2a1d3e4f5a6b7c8e2'' ''p1''
          ''2026-11-01T23:30:00.000Z'' ''2026-11-02T00:30:00.000Z'' confirmed]
   \<and> dateParse isoDates ''2026-11-01T23:30:00.000Z'' = Some 1793575800000
   \<and> dateParse isoDates ''2026-11-02T00:30:00.000Z'' = Some 1793579400000
   \<and> overlaps \<lparr>startTime = 1793577600000::int, endTime = 1793579400000, isAvailable = True\<rparr>
        \<lparr>startTime = 1793575800000::int, endTime = 1793579400000\<rparr>
   \<and> slotConflictsWith isoDates
        \<lparr>startTime = 1793577600000, endTime = 1793579400000, isAvailable = True\<rparr>
        (exampleAppointment ''64b7f0c2a1d3e4f5a6b7c8e2'' ''p1''
          ''2026-11-01T23:30:00.000Z'' ''2026-11-02T00:30:00.000Z'' confirmed)
   \<and> existingBooking nightDb ''p1''
        (toISOString isoDates 1793577600000) (toISOString isoDates 1793579400000) =
        Some (exampleAppointment ''64b7f0c2a1d3e4f5a6b7c8e2'' ''p1''
          ''2026-11-01T23:30:00.000Z'' ''2026-11-02T00:30:00.000Z'' confirmed)"
  by (simp add: night_result)
     (simp add: nightDb_def overlaps_def exampleAppointment_def existingBooking_def
        activeStatus_def slotConflictsWith_def isoDates_simps isoParse_examples
        isoFormat_examples)

text \<open>
  C4. On the same input the handler returns two slots, while one candidate of the walk
  over the open window is free of the provider's confirmed and pending appointments:
  \<open>min 8 1\<close> is not what it returns.
\<close>

theorem slots_count_exceeds_free_candidates:
  "getAvailableSlots isoDates (\<lambda>xs. xs) 0 nightDb nightQuery =
     Some (SlotsJson
       [\<lparr>startTime = 1793577600000, endTime = 1793579400000, isAvailable = True\<rparr>,
        \<lparr>startTime = 1793579400000, endTime = 1793581200000, isAvailable = True\<rparr>])
   \<and> length
       [\<lparr>startTime = 1793577600000, endTime = 1793579400000, isAvailable = True\<rparr>,
        \<lparr>startTime = 1793579400000, endTime = 1793581200000, isAvailable = True\<rparr>] = (2::nat)
   \<and> candidateSlots
        (startDateTime 0 1793577600000
           \<lparr>dayOfWeek = 1, bhStartTime = (0, 0), bhEndTime = (1, 0), isOpen = True\<rparr>)
        (endDateTime 0 1793577600000
           \<lparr>dayOfWeek = 1, bhStartTime = (0, 0), bhEndTime = (1, 0), isOpen = True\<rparr>) 30 =
       [\<lparr>startTime = 1793577600000, endTime = 1793579400000, isAvailable = True\<rparr>,
        \<lparr>startTime = 1793579400000, endTime = 1793581200000, isAvailable = True\<rparr>]
   \<and> filter (nonConflicting isoDates nightDb ''p1'')
        [\<lparr>startTime = 1793577600000, endTime = 1793579400000, isAvailable = True\<rparr>,
         \<lparr>startTime = 1793579400000, endTime = 1793581200000, isAvailable = True\<rparr>] =
       [\<lparr>startTime = 1793579400000, endTime = 1793581200000, isAvailable = True\<rparr>]
   \<and> min 8 (length
        [\<lparr>startTime = 1793579400000, endTime = 1793581200000, isAvailable = True\<rparr>]) = (1::nat)"
  by (simp add: night_result night_window)
     (simp add: candidateSlots_def upt_rec nonConflicting_def nightDb_def exampleAppointment_def
        activeStatus_def slotConflictsWith_def isoDates_simps isoParse_examples overlaps_def)



section \<open>Booking and its validation\<close>

lemma requiredFields_status:
  assumes "requiredFields r = Some e"
  shows "statusCode e = 400 \<and> code e \<noteq> DOUBLE_BOOKING"
  using assms
  by (auto simp: requiredFields_def validateNotEmpty_def validateEmail2_def validatePhone2_def
      split: if_splits)

lemma validateDateRange_status:
  assumes "validateDateRange js now s t = Some e"
  shows "statusCode e = 400 \<and> code e = INVALID_INPUT"
  using assms by (auto simp: validateDateRange_def split: if_splits)

lemma bookingValidation_status:
  assumes "bookingValidation js now r = Some e"
  shows "statusCode e = 400 \<and> code e \<noteq> DOUBLE_BOOKING"
proof (cases "requiredFields r")
  case None
  with assms have "validateDateRange js now (req_startTime r) (req_endTime r) = Some e"
    by (cases "validateDateRange js now (req_startTime r) (req_endTime r)")
       (simp_all add: bookingValidation_def)
  then show ?thesis using validateDateRange_status by fastforce
next
  case (Some e')
  with assms have "e' = e" by (simp add: bookingValidation_def)
  with Some show ?thesis using requiredFields_status by blast
qed


lemma bookAppointment_invalid:
  "bookingValidation js now r = Some e \<Longrightarrow>
   bookAppointment js now newId db r = (ErrorResponse e, db)"
  by (simp add: bookAppointment_def)


lemma validRequest_fields: "requiredFields validRequest = None"
  by (simp add: requiredFields_def validRequest_def validateNotEmpty_def
      isEmptyValue_def trim_def isSpace_def validateEmail2_def validateEmail_def
      validatePhone2_def validatePhone_def isDigit_def)


lemma validRequest_times:
  "dateParse isoDates (req_startTime validRequest) = Some 1793613600000"
  "dateParse isoDates (req_endTime validRequest) = Some 1793615400000"
  by (simp_all add: validRequest_def isoDates_simps isoParse_examples)







text \<open>
  C9, as the code has it. A request whose start time parses to an instant before the
  clock is rejected by validation with status 400 and nothing is inserted, whatever the
  collection holds; the error is \<open>INVALID_INPUT\<close> "Appointment cannot be scheduled in
  the past" when the checks before the date range pass and the start does not reach the
  end. A request with \<open>start \<ge> end\<close> is rejected with 400 in the same way, with
  \<open>INVALID_INPUT\<close> "End time must be after start time" when the earlier checks pass.
\<close>

theorem bookAppointment_rejects_past_start:
  "(dateParse js (req_startTime r) = Some s \<and> s < now \<longrightarrow>
      (\<exists>e. bookingValidation js now r = Some e
         \<and> bookAppointment js now newId db r = (ErrorResponse e, db)
         \<and> statusCode e = 400
         \<and> (requiredFields r = None \<and> \<not> dateGe (Some s) (dateParse js (req_endTime r)) \<longrightarrow>
              e = \<lparr>code = INVALID_INPUT,
                   message = ''Appointment cannot be scheduled in the past'', statusCode = 400\<rparr>)))
   \<and> (dateParse js (req_startTime r) = Some s \<and> dateParse js (req_endTime r) = Some t \<and> s \<ge> t
       \<longrightarrow>
      (\<exists>e. bookingValidation js now r = Some e
         \<and> bookAppointment js now newId db r = (ErrorResponse e, db)
         \<and> statusCode e = 400
         \<and> (requiredFields r = None \<longrightarrow>
              e = \<lparr>code = INVALID_INPUT,
                   message = ''End time must be after start time'', statusCode = 400\<rparr>)))"
proof (intro conjI impI)
  assume a: "dateParse js (req_startTime r) = Some s \<and> s < now"
  then have v: "validateDateRange js now (req_startTime r) (req_endTime r) \<noteq> None"
    by (simp add: validateDateRange_def dateLt_def)
  then obtain e where e: "bookingValidation js now r = Some e"
    by (cases "requiredFields r") (auto simp: bookingValidation_def)
  have c: "requiredFields r = None \<and> \<not> dateGe (Some s) (dateParse js (req_endTime r)) \<longrightarrow>
        e = \<lparr>code = INVALID_INPUT,
             message = ''Appointment cannot be scheduled in the past'', statusCode = 400\<rparr>"
    using a e by (auto simp: bookingValidation_def validateDateRange_def dateLt_def)
  show "\<exists>e. bookingValidation js now r = Some e
         \<and> bookAppointment js now newId db r = (ErrorResponse e, db)
         \<and> statusCode e = 400
         \<and> (requiredFields r = None \<and> \<not> dateGe (Some s) (dateParse js (req_endTime r)) \<longrightarrow>
              e = \<lparr>code = INVALID_INPUT,
                   message = ''Appointment cannot be scheduled in the past'', statusCode = 400\<rparr>)"
  proof (intro exI conjI)
    show "bookingValidation js now r = Some e" by (rule e)
    show "bookAppointment js now newId db r = (ErrorResponse e, db)"
      by (rule bookAppointment_invalid [OF e])
    show "statusCode e = 400" using bookingValidation_status [OF e] by simp
    show "requiredFields r = None \<and> \<not> dateGe (Some s) (dateParse js (req_endTime r)) \<longrightarrow>
        e = \<lparr>code = INVALID_INPUT,
             message = ''Appointment cannot be scheduled in the past'', statusCode = 400\<rparr>"
      by (rule c)
  qed
next
  assume a: "dateParse js (req_startTime r) = Some s \<and> dateParse js (req_endTime r) = Some t
             \<and> s \<ge> t"
  then have v: "validateDateRange js now (req_startTime r) (req_endTime r) =
       Some \<lparr>code = INVALID_INPUT,
                   message = ''End time must be after start time'', statusCode = 400\<rparr>"
    by (simp add: validateDateRange_def dateGe_def)
  then obtain e where e: "bookingValidation js now r = Some e"
    by (cases "requiredFields r") (auto simp: bookingValidation_def)
  have c: "requiredFields r = None \<longrightarrow>
        e = \<lparr>code = INVALID_INPUT,
             message = ''End time must be after start time'', statusCode = 400\<rparr>"
    using v e by (auto simp: bookingValidation_def)
  show "\<exists>e. bookingValidation js now r = Some e
         \<and> bookAppointment js now newId db r = (ErrorResponse e, db)
         \<and> statusCode e = 400
         \<and> (requiredFields r = None \<longrightarrow>
              e = \<lparr>code = INVALID_INPUT,
                   message = ''End time must be after start time'', statusCode = 400\<rparr>)"
  proof (intro exI conjI)
    show "bookingValidation js now r = Some e" by (rule e)
    show "bookAppointment js now newId db r = (ErrorResponse e, db)"
      by (rule bookAppointment_invalid [OF e])
    show "statusCode e = 400" using bookingValidation_status [OF e] by simp
    show "requiredFields r = None \<longrightarrow>
        e = \<lparr>code = INVALID_INPUT,
             message = ''End time must be after start time'', statusCode = 400\<rparr>"
      by (rule c)
  qed
qed

lemma swapped_fields:
  "requiredFields (validRequest\<lparr>req_startTime := ''2026-11-02T10:30:00.000Z'',
                                req_endTime := ''2026-11-02T10:00:00.000Z''\<rparr>) = None"
  "requiredFields (validRequest\<lparr>req_endTime := ''2026-11-02T10:00:00.000Z''\<rparr>) = None"
  by (simp_all add: requiredFields_def validRequest_def validateNotEmpty_def
      isEmptyValue_def trim_def isSpace_def validateEmail2_def validateEmail_def
      validatePhone2_def validatePhone_def isDigit_def)

theorem bookAppointment_rejects_past_start_witness:
  "bookAppointment isoDates 1793700000000 ''64b7f0c2a1d3e4f5a6b7c8ff'' scenarioDb validRequest =
     (ErrorResponse \<lparr>code = INVALID_INPUT,
        message = ''Appointment cannot be scheduled in the past'', statusCode = 400\<rparr>, scenarioDb)
   \<and> bookAppointment isoDates 1793500000000 ''64b7f0c2a1d3e4f5a6b7c8ff'' scenarioDb
      (validRequest\<lparr>req_startTime := ''2026-11-02T10:30:00.000Z'',
                    req_endTime := ''2026-11-02T10:00:00.000Z''\<rparr>) =
     (ErrorResponse \<lparr>code = INVALID_INPUT,
        message = ''End time must be after start time'', statusCode = 400\<rparr>, scenarioDb)"
proof -
  let ?r2 = "validRequest\<lparr>req_startTime := ''2026-11-02T10:30:00.000Z'',
                          req_endTime := ''2026-11-02T10:00:00.000Z''\<rparr>"
  have h1: "dateParse isoDates (req_startTime validRequest) = Some 1793613600000
            \<and> (1793613600000::int) < 1793700000000"
    "requiredFields validRequest = None
     \<and> \<not> dateGe (Some 1793613600000) (dateParse isoDates (req_endTime validRequest))"
    by (simp_all add: validRequest_fields validRequest_times dateGe_def)
  have h2: "dateParse isoDates (req_startTime ?r2) = Some 1793615400000
            \<and> dateParse isoDates (req_endTime ?r2) = Some 1793613600000
            \<and> (1793615400000::int) \<ge> 1793613600000"
    "requiredFields ?r2 = None"
    by (simp_all add: swapped_fields isoDates_simps isoParse_examples)
  from bookAppointment_rejects_past_start
    [of isoDates validRequest 1793613600000 1793700000000 "''64b7f0c2a1d3e4f5a6b7c8ff''" scenarioDb]
    h1
  have a: "bookAppointment isoDates 1793700000000 ''64b7f0c2a1d3e4f5a6b7c8ff'' scenarioDb
             validRequest =
     (ErrorResponse \<lparr>code = INVALID_INPUT,
        message = ''Appointment cannot be scheduled in the past'', statusCode = 400\<rparr>, scenarioDb)"
    by blast
  from bookAppointment_rejects_past_start
    [of isoDates ?r2 1793615400000 1793500000000 "''64b7f0c2a1d3e4f5a6b7c8ff''" scenarioDb
        1793613600000] h2
  have b: "bookAppointment isoDates 1793500000000 ''64b7f0c2a1d3e4f5a6b7c8ff'' scenarioDb ?r2 =
     (ErrorResponse \<lparr>code = INVALID_INPUT,
        message = ''End time must be after start time'', statusCode = 400\<rparr>, scenarioDb)"
    by blast
  from a b show ?thesis by blast
qed

text \<open>
  A start time in the past does not fix the error of C9: a request without a patient
  name is answered \<open>MISSING_REQUIRED_FIELD\<close>, and one whose end equals its start is
  answered "End time must be after start time", both with a start before the clock.
\<close>

theorem bookAppointment_past_start_other_error:
  "dateParse isoDates (req_startTime (validRequest\<lparr>req_patientName := []\<rparr>)) = Some 1793613600000
   \<and> (1793613600000::int) < 1793700000000
   \<and> bookAppointment isoDates 1793700000000 ''64b7f0c2a1d3e4f5a6b7c8ff'' scenarioDb
        (validRequest\<lparr>req_patientName := []\<rparr>) =
       (ErrorResponse \<lparr>code = MISSING_REQUIRED_FIELD,
          message = ''Patient name is required'', statusCode = 400\<rparr>, scenarioDb)
   \<and> dateParse isoDates
        (req_startTime (validRequest\<lparr>req_endTime := ''2026-11-02T10:00:00.000Z''\<rparr>))
       = Some 1793613600000
   \<and> bookAppointment isoDates 1793700000000 ''64b7f0c2a1d3e4f5a6b7c8ff'' scenarioDb
        (validRequest\<lparr>req_endTime := ''2026-11-02T10:00:00.000Z''\<rparr>) =
       (ErrorResponse \<lparr>code = INVALID_INPUT,
          message = ''End time must be after start time'', statusCode = 400\<rparr>, scenarioDb)"
proof -
  have 1: "bookingValidation isoDates 1793700000000 (validRequest\<lparr>req_patientName := []\<rparr>) =
     Some \<lparr>code = MISSING_REQUIRED_FIELD,
          message = ''Patient name is required'', statusCode = 400\<rparr>"
    by (simp add: bookingValidation_def requiredFields_def validRequest_def validateNotEmpty_def
      isEmptyValue_def)
  have 2: "bookingValidation isoDates 1793700000000
             (validRequest\<lparr>req_endTime := ''2026-11-02T10:00:00.000Z''\<rparr>) =
     Some \<lparr>code = INVALID_INPUT,
          message = ''End time must be after start time'', statusCode = 400\<rparr>"
    by (simp add: bookingValidation_def swapped_fields validateDateRange_def dateGe_def)
       (simp add: validRequest_def isoDates_simps isoParse_examples)
  show ?thesis
    by (simp add: bookAppointment_invalid [OF 1] bookAppointment_invalid [OF 2])
       (simp add: validRequest_def isoDates_simps isoParse_examples)
qed


section \<open>Rescheduling\<close>


lemma updateOne_first:
  "find p xs = Some x \<Longrightarrow>
   \<exists>i < length xs. p (xs ! i) \<and> (\<forall>j < i. \<not> p (xs ! j))
                   \<and> snd (updateOne p f xs) = xs[i := f (xs ! i)]"
proof (induction xs)
  case Nil
  then show ?case by simp
next
  case (Cons a xs)
  show ?case
  proof (cases "p a")
    case True
    then have "0 < length (a # xs) \<and> p ((a # xs) ! 0) \<and> (\<forall>j < 0. \<not> p ((a # xs) ! j))
               \<and> snd (updateOne p f (a # xs)) = (a # xs)[0 := f ((a # xs) ! 0)]"
      by simp
    then show ?thesis by blast
  next
    case False
    with Cons.prems have "find p xs = Some x" by simp
    from Cons.IH [OF this] obtain i where i: "i < length xs" "p (xs ! i)"
      "\<forall>j < i. \<not> p (xs ! j)" "snd (updateOne p f xs) = xs[i := f (xs ! i)]"
      by blast
    have "\<forall>j < Suc i. \<not> p ((a # xs) ! j)"
      using False i(3) by (auto simp: nth_Cons split: nat.splits)
    with False i have "Suc i < length (a # xs) \<and> p ((a # xs) ! Suc i)
               \<and> (\<forall>j < Suc i. \<not> p ((a # xs) ! j))
               \<and> snd (updateOne p f (a # xs)) = (a # xs)[Suc i := f ((a # xs) ! Suc i)]"
      by simp
    then show ?thesis by blast
  qed
qed



lemma oid_examples:
  "newObjectId ''64b7f0c2a1d3e4f5a6b7c8e1'' = Some (ObjectId ''64b7f0c2a1d3e4f5a6b7c8e1'')"
  "newObjectId ''64b7f0c2a1d3e4f5a6b7c8e3'' = Some (ObjectId ''64b7f0c2a1d3e4f5a6b7c8e3'')"
  "newObjectId ''64b7f0c2a1d3e4f5a6b7c8d9'' = Some (ObjectId ''64b7f0c2a1d3e4f5a6b7c8d9'')"
  by (simp_all add: newObjectId_def isHexDigit_def lowerHex_def)



lemma rescheduleAppointment_ok:
  assumes "rescheduleAppointment js now user db appointmentId body = (JsonOk msg, db')"
  obtains oid X where "newObjectId appointmentId = Some oid"
    "find (\<lambda>a. doc_id a = oid) (appointments db) = Some X"
    "db' = db\<lparr>appointments :=
              snd (updateOne (\<lambda>a. doc_id a = oid) (updateData js now body) (appointments db))\<rparr>"
proof (cases "newObjectId appointmentId")
  case None
  with assms show ?thesis
    by (auto simp: rescheduleAppointment_def split: option.splits if_splits)
next
  case (Some oid)
  show ?thesis
  proof (cases "find (\<lambda>a. doc_id a = oid) (appointments db)")
    case None
    with assms Some show ?thesis by (simp add: rescheduleAppointment_def)
  next
    case X: (Some X)
    with assms Some have
      "db' = db\<lparr>appointments :=
              snd (updateOne (\<lambda>a. doc_id a = oid) (updateData js now body) (appointments db))\<rparr>"
      by (auto simp: rescheduleAppointment_def Let_def split: option.splits if_splits)
    with Some X show ?thesis by (rule that)
  qed
qed

text \<open>
  C7, as the code has it. A successful reschedule replaces one document, the first whose
  id is the one requested, and leaves the rest of the appointment collection, the
  availability collection and everything else as they were. In that document it writes
  \<open>startTime\<close> and \<open>endTime\<close> (the strings of the request), \<open>updatedAt\<close> (the
  clock), and \<open>rescheduleReason\<close> when the request gives a non-empty reason; with an
  empty reason \<open>rescheduleReason\<close> keeps its value. No other field is written, so the
  status of every appointment is what it was.
\<close>

theorem reschedule_frame:
  assumes "rescheduleAppointment js now user db appointmentId body = (JsonOk msg, db')"
  shows "\<exists>oid i. newObjectId appointmentId = Some oid
     \<and> i < length (appointments db)
     \<and> doc_id (appointments db ! i) = oid
     \<and> (\<forall>j < i. doc_id (appointments db ! j) \<noteq> oid)
     \<and> appointments db' =
         (appointments db)
           [i := (appointments db ! i)
                   \<lparr>startTime := newStartTime body, endTime := newEndTime body,
                    updatedAt := toISOString js now,
                    rescheduleReason :=
                      (if reason body \<noteq> [] then Some (reason body)
                       else rescheduleReason (appointments db ! i))\<rparr>]
     \<and> map status (appointments db') = map status (appointments db)
     \<and> availability db' = availability db \<and> Db.more db' = Db.more db"
proof -
  from assms obtain oid X where o: "newObjectId appointmentId = Some oid"
    and X: "find (\<lambda>a. doc_id a = oid) (appointments db) = Some X"
    and d: "db' = db\<lparr>appointments :=
              snd (updateOne (\<lambda>a. doc_id a = oid) (updateData js now body) (appointments db))\<rparr>"
    by (rule rescheduleAppointment_ok)
  from updateOne_first [OF X, of "updateData js now body"]
  obtain i where i: "i < length (appointments db)" "doc_id (appointments db ! i) = oid"
    "\<forall>j < i. doc_id (appointments db ! j) \<noteq> oid"
    and u: "snd (updateOne (\<lambda>a. doc_id a = oid) (updateData js now body) (appointments db))
            = (appointments db)[i := updateData js now body (appointments db ! i)]"
    by blast
  let ?a = "appointments db ! i"
  let ?a' = "?a\<lparr>startTime := newStartTime body, endTime := newEndTime body,
                 updatedAt := toISOString js now,
                 rescheduleReason :=
                   (if reason body \<noteq> [] then Some (reason body) else rescheduleReason ?a)\<rparr>"
  have e: "updateData js now body ?a = ?a'"
    by (simp add: updateData_def Let_def)
  have apps: "appointments db' = (appointments db)[i := ?a']"
    using d u e by simp
  have "status ?a' = status ?a" by simp
  then have st: "map status ((appointments db)[i := ?a']) = map status (appointments db)"
    using i(1) by (simp add: map_update list_update_same_conv)
  show ?thesis
  proof (intro exI conjI)
    show "newObjectId appointmentId = Some oid" by (rule o)
    show "i < length (appointments db)" by (rule i(1))
    show "doc_id (appointments db ! i) = oid" by (rule i(2))
    show "\<forall>j < i. doc_id (appointments db ! j) \<noteq> oid" by (rule i(3))
    show "appointments db' = (appointments db)[i := ?a']" by (rule apps)
    show "map status (appointments db') = map status (appointments db)"
      using st by (simp add: apps)
    show "availability db' = availability db" by (simp add: d)
    show "Db.more db' = Db.more db" by (simp add: d)
  qed
qed

lemma reschedule_example:
  "rescheduleAppointment isoDates 1793500000000 None twoBookings
     ''64b7f0c2a1d3e4f5a6b7c8e1'' moveBody =
     (JsonOk ''Appointment rescheduled successfully'',
      twoBookings\<lparr>appointments :=
        [(exampleAppointment ''64b7f0c2a1d3e4f5a6b7c8e1'' ''p1''
            ''2026-11-02T10:15:00.000Z'' ''2026-11-02T10:45:00.000Z'' confirmed)
           \<lparr>updatedAt := ''2026-11-01T02:26:40.000Z'',
            rescheduleReason := Some ''patient asked''\<rparr>,
         exampleAppointment ''64b7f0c2a1d3e4f5a6b7c8e4'' ''p1''
            ''2026-11-02T11:00:00.000Z'' ''2026-11-02T11:30:00.000Z'' pending]\<rparr>)"
  by (simp add: rescheduleAppointment_def oid_examples twoBookings_def exampleAppointment_def
      otherProvider_def rescheduleConflict_def moveBody_def updateData_def Let_def
      activeStatus_def overlaps_def isoDates_simps isoFormat_examples)

theorem reschedule_frame_witness:
  "appointments (snd (rescheduleAppointment isoDates 1793500000000 None twoBookings
                        ''64b7f0c2a1d3e4f5a6b7c8e1'' moveBody)) =
     [(exampleAppointment ''64b7f0c2a1d3e4f5a6b7c8e1'' ''p1''
         ''2026-11-02T10:00:00.000Z'' ''2026-11-02T10:30:00.000Z'' confirmed)
        \<lparr>startTime := ''2026-11-02T10:15:00.000Z'', endTime := ''2026-11-02T10:45:00.000Z'',
         updatedAt := toISOString isoDates 1793500000000,
         rescheduleReason := Some ''patient asked''\<rparr>,
      exampleAppointment ''64b7f0c2a1d3e4f5a6b7c8e4'' ''p1''
         ''2026-11-02T11:00:00.000Z'' ''2026-11-02T11:30:00.000Z'' pending]
   \<and> map status (appointments (snd (rescheduleAppointment isoDates 1793500000000 None twoBookings
                        ''64b7f0c2a1d3e4f5a6b7c8e1'' moveBody))) = [confirmed, pending]"
proof -
  let ?db' = "snd (rescheduleAppointment isoDates 1793500000000 None twoBookings
                     ''64b7f0c2a1d3e4f5a6b7c8e1'' moveBody)"
  have r: "rescheduleAppointment isoDates 1793500000000 None twoBookings
             ''64b7f0c2a1d3e4f5a6b7c8e1'' moveBody =
           (JsonOk ''Appointment rescheduled successfully'', ?db')"
    by (simp add: reschedule_example)
  have apps: "appointments twoBookings =
        [exampleAppointment ''64b7f0c2a1d3e4f5a6b7c8e1'' ''p1''
           ''2026-11-02T10:00:00.000Z'' ''2026-11-02T10:30:00.000Z'' confirmed,
         exampleAppointment ''64b7f0c2a1d3e4f5a6b7c8e4'' ''p1''
           ''2026-11-02T11:00:00.000Z'' ''2026-11-02T11:30:00.000Z'' pending]"
    by (simp add: twoBookings_def)
  from reschedule_frame [OF r] obtain oid i where
    o: "newObjectId ''64b7f0c2a1d3e4f5a6b7c8e1'' = Some oid"
    and i: "i < length (appointments twoBookings)" "doc_id (appointments twoBookings ! i) = oid"
    and a: "appointments ?db' =
         (appointments twoBookings)
           [i := (appointments twoBookings ! i)
                   \<lparr>startTime := newStartTime moveBody, endTime := newEndTime moveBody,
                    updatedAt := toISOString isoDates 1793500000000,
                    rescheduleReason :=
                      (if reason moveBody \<noteq> [] then Some (reason moveBody)
                       else rescheduleReason (appointments twoBookings ! i))\<rparr>]"
    and s: "map status (appointments ?db') = map status (appointments twoBookings)"
    by blast
  from o have oid: "oid = ObjectId ''64b7f0c2a1d3e4f5a6b7c8e1''" by (simp add: oid_examples)
  from i(1) have "i = 0 \<or> i = 1" by (auto simp: apps)
  with i(2) oid have i0: "i = 0" by (auto simp: apps exampleAppointment_def)
  have 1: "appointments ?db' =
     [(exampleAppointment ''64b7f0c2a1d3e4f5a6b7c8e1'' ''p1''
         ''2026-11-02T10:00:00.000Z'' ''2026-11-02T10:30:00.000Z'' confirmed)
        \<lparr>startTime := ''2026-11-02T10:15:00.000Z'', endTime := ''2026-11-02T10:45:00.000Z'',
         updatedAt := toISOString isoDates 1793500000000,
         rescheduleReason := Some ''patient asked''\<rparr>,
      exampleAppointment ''64b7f0c2a1d3e4f5a6b7c8e4'' ''p1''
         ''2026-11-02T11:00:00.000Z'' ''2026-11-02T11:30:00.000Z'' pending]"
    unfolding a i0 apps by (simp add: moveBody_def)
  have 2: "map status (appointments ?db') = [confirmed, pending]"
    unfolding s apps by (simp add: exampleAppointment_def)
  from 1 2 show ?thesis by blast
qed

text \<open>
  Besides the two timestamps a reschedule also writes \<open>updatedAt\<close>: here it goes
  from the time the appointment was created to the clock.
\<close>

theorem reschedule_writes_updatedAt:
  "rescheduleAppointment isoDates 1793500000000 None twoBookings
     ''64b7f0c2a1d3e4f5a6b7c8e1'' moveBody =
     (JsonOk ''Appointment rescheduled successfully'',
      twoBookings\<lparr>appointments :=
        [(exampleAppointment ''64b7f0c2a1d3e4f5a6b7c8e1'' ''p1''
            ''2026-11-02T10:15:00.000Z'' ''2026-11-02T10:45:00.000Z'' confirmed)
           \<lparr>updatedAt := ''2026-11-01T02:26:40.000Z'',
            rescheduleReason := Some ''patient asked''\<rparr>,
         exampleAppointment ''64b7f0c2a1d3e4f5a6b7c8e4'' ''p1''
            ''2026-11-02T11:00:00.000Z'' ''2026-11-02T11:30:00.000Z'' pending]\<rparr>)
   \<and> appointments twoBookings =
        [exampleAppointment ''64b7f0c2a1d3e4f5a6b7c8e1'' ''p1''
           ''2026-11-02T10:00:00.000Z'' ''2026-11-02T10:30:00.000Z'' confirmed,
         exampleAppointment ''64b7f0c2a1d3e4f5a6b7c8e4'' ''p1''
           ''2026-11-02T11:00:00.000Z'' ''2026-11-02T11:30:00.000Z'' pending]
   \<and> updatedAt (exampleAppointment ''64b7f0c2a1d3e4f5a6b7c8e1'' ''p1''
           ''2026-11-02T10:00:00.000Z'' ''2026-11-02T10:30:00.000Z'' confirmed)
       = ''2026-10-30T09:00:00.000Z''
   \<and> updatedAt ((exampleAppointment ''64b7f0c2a1d3e4f5a6b7c8e1'' ''p1''
            ''2026-11-02T10:15:00.000Z'' ''2026-11-02T10:45:00.000Z'' confirmed)
           \<lparr>updatedAt := ''2026-11-01T02:26:40.000Z'',
            rescheduleReason := Some ''patient asked''\<rparr>)
       = ''2026-11-01T02:26:40.000Z''"
  by (simp add: reschedule_example) (simp add: twoBookings_def exampleAppointment_def)

section \<open>Reminder timers\<close>

lemma updateAppointmentStatus_keeps_timers:
  "scheduledReminders (snd (updateAppointmentStatus js now user st appointmentId statusText))
     = scheduledReminders st"
  by (simp add: updateAppointmentStatus_def Let_def split: option.splits)

lemma cancelReminder_clears:
  "prefix appointmentId key \<Longrightarrow> scheduledReminders (cancelReminder appointmentId st) key = None"
  by (simp add: cancelReminder_def)

lemma sweep_skips_inactive:
  "apt \<in> set (appointmentsNeedingReminders js now h db) \<Longrightarrow>
   status apt = confirmed \<or> status apt = pending"
  by (auto simp: appointmentsNeedingReminders_def activeStatus_def)

lemma armedState_eval:
  "armedState =
     reminderState\<lparr>scheduledReminders :=
       [''64b7f0c2a1d3e4f5a6b7c8e3_1793786400000'' \<mapsto>
          \<lparr>t_appointmentId = ''64b7f0c2a1d3e4f5a6b7c8e3'', t_type = both,
           t_sendTime = 1793786400000, cleared = False\<rparr>]\<rparr>"
  by (simp add: armedState_def scheduleExistingAppointments_def reminderState_def
      exampleAppointment_def activeStatus_def scheduleReminder_def Let_def
      reminderKey_def showInt_def showNat.simps isoDates_simps isoFormat_examples
      isoParse_examples)

text \<open>
  C3. \<open>updateAppointmentStatus\<close> never touches \<open>scheduledReminders\<close>, and nothing
  calls \<open>cancelReminder\<close>. Start-up reconciliation at 2026-11-02 00:00 arms a timer
  for a confirmed appointment on 2026-11-05 10:00; after the appointment is cancelled
  through \<open>updateAppointmentStatus\<close> the timer is still in the map, armed, under a
  key that starts with the appointment id. \<open>cancelReminder\<close> would have removed it.
  The sweep, which selected the appointment before, no longer selects it.
\<close>

theorem cancelled_appointment_keeps_timer:
  "scheduledReminders armedState ''64b7f0c2a1d3e4f5a6b7c8e3_1793786400000'' =
      Some \<lparr>t_appointmentId = ''64b7f0c2a1d3e4f5a6b7c8e3'', t_type = both,
            t_sendTime = 1793786400000, cleared = False\<rparr>
   \<and> updateAppointmentStatus isoDates 1793577601000 None armedState
        ''64b7f0c2a1d3e4f5a6b7c8e3'' ''cancelled'' =
      (JsonOk ''Appointment updated'',
       armedState\<lparr>appointments :=
         [(exampleAppointment ''64b7f0c2a1d3e4f5a6b7c8e3'' ''p1''
             ''2026-11-05T10:00:00.000Z'' ''2026-11-05T10:30:00.000Z'' confirmed)
            \<lparr>status := cancelled, updatedAt := ''2026-11-02T00:00:01.000Z''\<rparr>]\<rparr>)
   \<and> scheduledReminders
        (snd (updateAppointmentStatus isoDates 1793577601000 None armedState
                ''64b7f0c2a1d3e4f5a6b7c8e3'' ''cancelled''))
        ''64b7f0c2a1d3e4f5a6b7c8e3_1793786400000'' =
      Some \<lparr>t_appointmentId = ''64b7f0c2a1d3e4f5a6b7c8e3'', t_type = both,
            t_sendTime = 1793786400000, cleared = False\<rparr>
   \<and> prefix ''64b7f0c2a1d3e4f5a6b7c8e3'' ''64b7f0c2a1d3e4f5a6b7c8e3_1793786400000''
   \<and> scheduledReminders
        (cancelReminder ''64b7f0c2a1d3e4f5a6b7c8e3''
           (snd (updateAppointmentStatus isoDates 1793577601000 None armedState
                   ''64b7f0c2a1d3e4f5a6b7c8e3'' ''cancelled'')))
        ''64b7f0c2a1d3e4f5a6b7c8e3_1793786400000'' = None
   \<and> appointmentsNeedingReminders isoDates 1793800000000 None armedState =
        [exampleAppointment ''64b7f0c2a1d3e4f5a6b7c8e3'' ''p1''
           ''2026-11-05T10:00:00.000Z'' ''2026-11-05T10:30:00.000Z'' confirmed]
   \<and> appointmentsNeedingReminders isoDates 1793800000000 None
        (snd (updateAppointmentStatus isoDates 1793577601000 None armedState
                ''64b7f0c2a1d3e4f5a6b7c8e3'' ''cancelled'')) = []"
proof -
  have u: "updateAppointmentStatus isoDates 1793577601000 None armedState
             ''64b7f0c2a1d3e4f5a6b7c8e3'' ''cancelled'' =
      (JsonOk ''Appointment updated'',
       armedState\<lparr>appointments :=
         [(exampleAppointment ''64b7f0c2a1d3e4f5a6b7c8e3'' ''p1''
             ''2026-11-05T10:00:00.000Z'' ''2026-11-05T10:30:00.000Z'' confirmed)
            \<lparr>status := cancelled, updatedAt := ''2026-11-02T00:00:01.000Z''\<rparr>]\<rparr>)"
    by (simp add: updateAppointmentStatus_def parseStatus_def oid_examples armedState_eval
        reminderState_def exampleAppointment_def otherProvider_def Let_def
        isoDates_simps isoFormat_examples)
  have p: "prefix ''64b7f0c2a1d3e4f5a6b7c8e3'' ''64b7f0c2a1d3e4f5a6b7c8e3_1793786400000''"
    by simp
  have n: "appointmentsNeedingReminders isoDates 1793800000000 None armedState =
        [exampleAppointment ''64b7f0c2a1d3e4f5a6b7c8e3'' ''p1''
           ''2026-11-05T10:00:00.000Z'' ''2026-11-05T10:30:00.000Z'' confirmed]"
    by (simp add: appointmentsNeedingReminders_def reminderHours_def armedState_eval
        reminderState_def exampleAppointment_def activeStatus_def
        isoDates_simps isoFormat_examples)
  show ?thesis
    unfolding u snd_conv
    by (simp add: p n)
       (simp add: armedState_eval cancelReminder_def appointmentsNeedingReminders_def
          reminderHours_def exampleAppointment_def activeStatus_def)
qed


end
